theory Spec2Isabelle
  imports Main "HOL-Library.Word"
begin

unbundle bit_operations_syntax

section \<open>Machine types, errors and sequencing\<close>

text \<open>
  The command-buffer encoder of the Intel driver (\<open>icd/intel/cmd_pipeline.c\<close>,
  \<open>cmd_barrier.c\<close>, \<open>cmd_priv.h\<close>) is embedded with explicit state passing. A C
  \<open>uint32_t\<close> is a \<open>32 word\<close>; byte offsets into the writers (\<open>size_t\<close>) are
  natural numbers. A failed \<open>assert\<close> aborts the process and is the error
  \<open>AssertFailed\<close>; an access the C code makes outside an array or through a NULL
  pointer is the error \<open>MemoryFault\<close>.
\<close>

type_synonym u32 = "32 word"
type_synonym u64 = "64 word"

datatype error = AssertFailed | MemoryFault

definition and_then :: "error + 'a \<Rightarrow> ('a \<Rightarrow> error + 'b) \<Rightarrow> error + 'b" where
  "and_then r f = (case r of Inl e \<Rightarrow> Inl e | Inr x \<Rightarrow> f x)"

datatype VkResult =
    VK_SUCCESS
  | VK_ERROR_OUT_OF_HOST_MEMORY
  | VK_ERROR_OUT_OF_DEVICE_MEMORY
  | VK_ERROR_VALIDATION_FAILED_EXT

section \<open>Hardware generations and PIPE_CONTROL bits\<close>

text \<open>
  \<open>INTEL_GEN(x)\<close> is the generation times one hundred, an \<open>int\<close>; the three values
  the code compares with are named here.
\<close>

definition INTEL_GEN_6 :: int where "INTEL_GEN_6 = 600"
definition INTEL_GEN_7 :: int where "INTEL_GEN_7 = 700"
definition INTEL_GEN_7_5 :: int where "INTEL_GEN_7_5 = 750"

text \<open>
  Modelled from the spec: the PIPE_CONTROL flag bits of \<open>genhw/genhw.h\<close>, a header that
  is not among the sources. The spec names the stall bit, its scoreboard-stall companion
  and the cache flush and invalidate bits; the bit positions are the ones the comments of
  \<open>gen6_PIPE_CONTROL\<close> quote from the hardware manual (depth cache flush [0], stall at
  pixel scoreboard [1], notify [8], render target cache flush [12], depth stall [13],
  post-sync operation [15:14]) and bit 20 for the CS stall.
\<close>

definition GEN6_PIPE_CONTROL_DEPTH_CACHE_FLUSH :: u32 where
  "GEN6_PIPE_CONTROL_DEPTH_CACHE_FLUSH = 0x1"
definition GEN6_PIPE_CONTROL_PIXEL_SCOREBOARD_STALL :: u32 where
  "GEN6_PIPE_CONTROL_PIXEL_SCOREBOARD_STALL = 0x2"
definition GEN6_PIPE_CONTROL_CONSTANT_CACHE_INVALIDATE :: u32 where
  "GEN6_PIPE_CONTROL_CONSTANT_CACHE_INVALIDATE = 0x8"
definition GEN6_PIPE_CONTROL_VF_CACHE_INVALIDATE :: u32 where
  "GEN6_PIPE_CONTROL_VF_CACHE_INVALIDATE = 0x10"
definition GEN7_PIPE_CONTROL_DC_FLUSH :: u32 where
  "GEN7_PIPE_CONTROL_DC_FLUSH = 0x20"
definition GEN6_PIPE_CONTROL_NOTIFY_ENABLE :: u32 where
  "GEN6_PIPE_CONTROL_NOTIFY_ENABLE = 0x100"
definition GEN6_PIPE_CONTROL_TEXTURE_CACHE_INVALIDATE :: u32 where
  "GEN6_PIPE_CONTROL_TEXTURE_CACHE_INVALIDATE = 0x400"
definition GEN6_PIPE_CONTROL_INSTRUCTION_CACHE_INVALIDATE :: u32 where
  "GEN6_PIPE_CONTROL_INSTRUCTION_CACHE_INVALIDATE = 0x800"
definition GEN6_PIPE_CONTROL_RENDER_CACHE_FLUSH :: u32 where
  "GEN6_PIPE_CONTROL_RENDER_CACHE_FLUSH = 0x1000"
definition GEN6_PIPE_CONTROL_DEPTH_STALL :: u32 where
  "GEN6_PIPE_CONTROL_DEPTH_STALL = 0x2000"
definition GEN6_PIPE_CONTROL_WRITE_IMM :: u32 where
  "GEN6_PIPE_CONTROL_WRITE_IMM = 0x4000"
definition GEN6_PIPE_CONTROL_WRITE_PS_DEPTH_COUNT :: u32 where
  "GEN6_PIPE_CONTROL_WRITE_PS_DEPTH_COUNT = 0x8000"
definition GEN6_PIPE_CONTROL_WRITE_TIMESTAMP :: u32 where
  "GEN6_PIPE_CONTROL_WRITE_TIMESTAMP = 0xc000"
definition GEN6_PIPE_CONTROL_WRITE__MASK :: u32 where
  "GEN6_PIPE_CONTROL_WRITE__MASK = 0xc000"
definition GEN6_PIPE_CONTROL_CS_STALL :: u32 where
  "GEN6_PIPE_CONTROL_CS_STALL = 0x100000"
definition GEN6_PIPE_CONTROL_DW2_USE_GGTT :: u32 where
  "GEN6_PIPE_CONTROL_DW2_USE_GGTT = 0x4"

text \<open>\<open>GEN6_RENDER_CMD(3D, PIPE_CONTROL)\<close>, the header of the packet without its length.\<close>

definition GEN6_RENDER_CMD_3D_PIPE_CONTROL :: u32 where
  "GEN6_RENDER_CMD_3D_PIPE_CONTROL = 0x7a000000"

definition INTEL_RELOC_GGTT :: u32 where "INTEL_RELOC_GGTT = 0x1"
definition INTEL_RELOC_WRITE :: u32 where "INTEL_RELOC_WRITE = 0x2"
definition INTEL_CMD_RELOC_TARGET_IS_WRITER :: u32 where
  "INTEL_CMD_RELOC_TARGET_IS_WRITER = 0x80000000"

text \<open>The bits of \<open>intel_debug\<close> and of the workaround masks (\<open>cmd.h\<close>, \<open>pipeline.h\<close>).\<close>

definition INTEL_DEBUG_NOCACHE :: u32 where "INTEL_DEBUG_NOCACHE = 0x8"

definition INTEL_CMD_WA_GEN6_PRE_DEPTH_STALL_WRITE :: u32 where
  "INTEL_CMD_WA_GEN6_PRE_DEPTH_STALL_WRITE = 0x1"

section \<open>Viewport guard band\<close>

text \<open>
  \<open>viewport_get_guardband\<close> of \<open>cmd_pipeline.c\<close>. The centre and the four results are C
  \<open>int\<close>s; every value the function computes from an in-range centre fits, so the
  arithmetic is that of \<open>int\<close>. The results pass through \<open>float\<close>, which is exact below
  \<open>2^24\<close>. The result is \<open>(min_gbx, max_gbx, min_gby, max_gby)\<close>.
\<close>

definition guardband_max_extent :: "int \<Rightarrow> int" where
  "guardband_max_extent g = (if g \<ge> INTEL_GEN_7 then 32768 else 16384)"

definition guardband_clamp :: "int \<Rightarrow> int \<Rightarrow> int" where
  "guardband_clamp max_extent center =
     (let half_len = 8192 div 2 in
      if center - half_len < - max_extent then - max_extent + half_len
      else if center + half_len > max_extent - 1 then max_extent - half_len
      else center)"

definition viewport_get_guardband :: "int \<Rightarrow> int \<Rightarrow> int \<Rightarrow> int \<times> int \<times> int \<times> int" where
  "viewport_get_guardband g center_x center_y =
     (let max_extent = guardband_max_extent g;
          half_len = 8192 div 2;
          cx = guardband_clamp max_extent center_x;
          cy = guardband_clamp max_extent center_y
      in (cx - half_len, cx + half_len, cy - half_len, cy + half_len))"

section \<open>Primitive restart\<close>

datatype gen6_3dprim =
    GEN6_3DPRIM_POINTLIST
  | GEN6_3DPRIM_LINELIST
  | GEN6_3DPRIM_LINESTRIP
  | GEN6_3DPRIM_TRILIST
  | GEN6_3DPRIM_TRISTRIP
  | GEN6_3DPRIM_TRIFAN
  | GEN6_3DPRIM_RECTLIST
  | GEN6_3DPRIM_OTHER nat

datatype VkIndexType = VK_INDEX_TYPE_UINT16 | VK_INDEX_TYPE_UINT32 | VK_INDEX_TYPE_OTHER nat


section \<open>Command buffer state\<close>

text \<open>
  \<open>struct intel_cmd\<close> and what it points to (\<open>cmd.h\<close>, \<open>pipeline.h\<close>, \<open>view.h\<close> and
  \<open>fb.h\<close> are not among the sources; the fields are the ones the functions below read and
  write). A writer is a growable byte region; \<open>stored\<close> is what has been written through
  its pointer, as the sequence of (byte offset, data) the code stored. Objects the code
  reaches through pointers it only reads are values; a pointer the code compares
  (\<open>shader_ptr\<close>) or tests for NULL is kept as an address or an option.
\<close>

datatype intel_cmd_writer_type =
    INTEL_CMD_WRITER_BATCH
  | INTEL_CMD_WRITER_SURFACE
  | INTEL_CMD_WRITER_STATE
  | INTEL_CMD_WRITER_INSTRUCTION

datatype payload = Dwords "u32 list" | Bytes "8 word list"

record intel_cmd_writer =
  wsize :: nat
  used :: nat
  sba_offset :: nat
  stored :: "(nat \<times> payload) list"

type_synonym intel_bo = nat

datatype reloc_target = TARGET_BO intel_bo | TARGET_WRITER intel_cmd_writer_type

record intel_cmd_reloc =
  which :: intel_cmd_writer_type
  reloc_offset :: nat
  target :: reloc_target
  target_offset :: u32
  reloc_flags :: u32

record intel_desc_offset =
  surface :: u32
  sampler :: u32

datatype intel_pipeline_rmap_slot_type =
    INTEL_PIPELINE_RMAP_UNUSED
  | INTEL_PIPELINE_RMAP_RT
  | INTEL_PIPELINE_RMAP_SURFACE
  | INTEL_PIPELINE_RMAP_SAMPLER

record intel_pipeline_rmap_slot =
  slot_type :: intel_pipeline_rmap_slot_type
  slot_index :: u32
  surface_offset :: intel_desc_offset
  dynamic_offset_index :: int

record intel_pipeline_rmap =
  rt_count :: u32
  texture_resource_count :: u32
  resource_count :: u32
  uav_count :: u32
  slots :: "intel_pipeline_rmap_slot list"

record intel_pipeline_shader =
  shader_ptr :: nat
  pCode :: "8 word list"
  codeSize :: nat
  rmap :: "intel_pipeline_rmap option"

record intel_pipeline =
  prim_type :: gen6_3dprim
  primitive_restart :: bool
  primitive_restart_index :: u32
  pipeline_wa_flags :: u32
  active_shaders :: u32
  pipeline_cmd_len :: nat
  pipeline_cmds :: "u32 list"
  vs :: intel_pipeline_shader
  tcs :: intel_pipeline_shader
  tes :: intel_pipeline_shader
  gs :: intel_pipeline_shader
  fs :: intel_pipeline_shader
  total_dynamic_desc_count :: u32

record intel_att_view =
  att_cmd :: "u32 list"
  att_cmd_len :: u32
  att_bo :: intel_bo

record intel_fb =
  views :: "intel_att_view list"
  view_count :: u32

record intel_render_pass_subpass =
  color_indices :: "u32 list"
  color_count :: u32

record intel_buf =
  buf_size :: u32
  buf_bo :: intel_bo

record intel_cmd_shader_cache =
  entries :: "(nat \<times> u32) list"
  cache_count :: nat

record intel_desc_surface =
  desc_mem :: "intel_bo option"
  desc_read_only :: bool
  desc_cmd :: "u32 list"
  desc_cmd_len :: u32

record intel_cmd_bind =
  pipeline_graphics :: intel_pipeline
  vs_offset :: u32
  tcs_offset :: u32
  tes_offset :: u32
  gs_offset :: u32
  fs_offset :: u32
  index_buf :: intel_buf
  index_offset :: u32
  index_type :: VkIndexType
  set_offsets :: "intel_desc_offset list"
  dynamic_offsets :: "u32 list"
  render_pass_changed :: bool
  render_pass_subpass :: "intel_render_pass_subpass option"
  fb :: "intel_fb option"
  draw_count :: u32
  wa_flags :: u32
  shader_cache :: intel_cmd_shader_cache
  meta_bound :: bool

record intel_cmd =
  gen :: int
  intel_debug :: u32
  null_view_cmd :: "u32 list"
  desc_region :: "intel_desc_offset \<Rightarrow> u32 \<Rightarrow> intel_desc_surface"
  scratch_bo :: "intel_bo option"
  alloc_limit :: nat
  writers :: "intel_cmd_writer_type \<Rightarrow> intel_cmd_writer"
  relocs :: "intel_cmd_reloc list"
  reloc_count :: u32
  reloc_used :: u32
  result :: VkResult
  bind :: intel_cmd_bind

definition cmd_gen :: "intel_cmd \<Rightarrow> int" where
  "cmd_gen cmd = gen cmd"

text \<open>\<open>CMD_ASSERT(cmd, min_gen, max_gen)\<close>: the condition the macro asserts.\<close>

definition CMD_ASSERT :: "intel_cmd \<Rightarrow> int \<Rightarrow> int \<Rightarrow> bool" where
  "CMD_ASSERT cmd min_gen max_gen \<longleftrightarrow> min_gen \<le> cmd_gen cmd \<and> cmd_gen cmd \<le> max_gen"

definition cmd_fail :: "intel_cmd \<Rightarrow> VkResult \<Rightarrow> intel_cmd" where
  "cmd_fail cmd r = cmd\<lparr>result := r\<rparr>"

section \<open>Relocation table\<close>

text \<open>
  \<open>cmd_reserve_reloc\<close> and \<open>cmd_writer_reloc\<close> of \<open>cmd_priv.h\<close>. The counters are
  \<open>uint32_t\<close>, so \<open>reloc_used + reloc_len\<close> wraps. The table \<open>relocs\<close> is an array of
  \<open>reloc_count\<close> entries; a store beyond the list is a \<open>MemoryFault\<close>.
\<close>

definition cmd_reserve_reloc :: "intel_cmd \<Rightarrow> u32 \<Rightarrow> error + intel_cmd" where
  "cmd_reserve_reloc cmd reloc_len =
     (let cmd1 = (if reloc_used cmd + reloc_len > reloc_count cmd
                  then cmd_fail (cmd\<lparr>reloc_used := 0\<rparr>) VK_ERROR_VALIDATION_FAILED_EXT
                  else cmd)
      in if reloc_used cmd1 + reloc_len \<le> reloc_count cmd1 then Inr cmd1
         else Inl AssertFailed)"

definition cmd_writer_reloc ::
  "intel_cmd \<Rightarrow> intel_cmd_writer_type \<Rightarrow> nat \<Rightarrow> reloc_target \<Rightarrow> u32 \<Rightarrow> u32 \<Rightarrow> error + intel_cmd" where
  "cmd_writer_reloc cmd w offs tgt tgt_offset flags =
     (if \<not> reloc_used cmd < reloc_count cmd then Inl AssertFailed
      else if \<not> unat (reloc_used cmd) < length (relocs cmd) then Inl MemoryFault
      else Inr (cmd\<lparr>relocs := (relocs cmd)[unat (reloc_used cmd) :=
                        \<lparr>which = w, reloc_offset = offs, target = tgt,
                         target_offset = tgt_offset, reloc_flags = flags\<rparr>],
                     reloc_used := reloc_used cmd + 1\<rparr>))"

section \<open>Writers\<close>

definition u_is_pow2 :: "nat \<Rightarrow> bool" where
  "u_is_pow2 v \<longleftrightarrow> v AND (v - 1) = 0"

text \<open>\<open>u_align\<close> rounds up to a multiple of a power of two.\<close>

definition u_align :: "nat \<Rightarrow> nat \<Rightarrow> nat" where
  "u_align v a = ((v + a - 1) div a) * a"

definition set_writer :: "intel_cmd \<Rightarrow> intel_cmd_writer_type \<Rightarrow> intel_cmd_writer \<Rightarrow> intel_cmd" where
  "set_writer cmd w wr = cmd\<lparr>writers := (writers cmd)(w := wr)\<rparr>"

text \<open>
  Modelled from the spec: \<open>cmd_writer_grow\<close> (\<open>cmd.c\<close> is not among the sources). "If
  insufficient capacity remains, the region is grown (reallocated, contents preserved)";
  "allocation failure during grow is reported upward as an out-of-memory condition that
  marks the whole recording failed". \<open>alloc_limit\<close> is the largest region the allocator
  gives.
\<close>

definition cmd_writer_grow :: "intel_cmd \<Rightarrow> intel_cmd_writer_type \<Rightarrow> nat \<Rightarrow> intel_cmd" where
  "cmd_writer_grow cmd w new_size =
     (if new_size \<le> alloc_limit cmd
      then set_writer cmd w ((writers cmd w)\<lparr>wsize := new_size\<rparr>)
      else cmd_fail cmd VK_ERROR_OUT_OF_DEVICE_MEMORY)"

definition cmd_writer_reserve ::
  "intel_cmd \<Rightarrow> intel_cmd_writer_type \<Rightarrow> nat \<Rightarrow> nat \<Rightarrow> error + (nat \<times> intel_cmd)" where
  "cmd_writer_reserve cmd w alignment sz =
     (if \<not> (alignment \<noteq> 0 \<and> u_is_pow2 alignment) then Inl AssertFailed
      else
        let offs = u_align (used (writers cmd w)) alignment in
        if offs + sz > wsize (writers cmd w) then
          (let cmd1 = cmd_writer_grow cmd w (offs + sz);
               offs1 = u_align (used (writers cmd1 w)) alignment
           in if offs1 + sz \<le> wsize (writers cmd1 w) then Inr (offs1, cmd1)
              else Inl AssertFailed)
        else Inr (offs, cmd))"

text \<open>
  \<open>cmd_batch_pointer\<close> reserves \<open>len\<close> dwords of the batch and returns the position in
  dwords; the caller then stores the packet through the pointer, which is \<open>batch_store\<close>.
\<close>

definition cmd_batch_pointer :: "intel_cmd \<Rightarrow> nat \<Rightarrow> error + (nat \<times> intel_cmd)" where
  "cmd_batch_pointer cmd len =
     and_then (cmd_writer_reserve cmd INTEL_CMD_WRITER_BATCH 1 (len * 4)) (\<lambda>(offs, cmd1).
       if offs mod 4 \<noteq> 0 then Inl AssertFailed
       else Inr (offs div 4,
                 set_writer cmd1 INTEL_CMD_WRITER_BATCH
                   ((writers cmd1 INTEL_CMD_WRITER_BATCH)\<lparr>used := offs + len * 4\<rparr>)))"

definition writer_store :: "intel_cmd \<Rightarrow> intel_cmd_writer_type \<Rightarrow> nat \<Rightarrow> payload \<Rightarrow> intel_cmd" where
  "writer_store cmd w offs d =
     set_writer cmd w ((writers cmd w)\<lparr>stored := stored (writers cmd w) @ [(offs, d)]\<rparr>)"

definition batch_store :: "intel_cmd \<Rightarrow> nat \<Rightarrow> u32 list \<Rightarrow> intel_cmd" where
  "batch_store cmd pos dw = writer_store cmd INTEL_CMD_WRITER_BATCH (pos * 4) (Dwords dw)"


definition cmd_batch_reloc ::
  "intel_cmd \<Rightarrow> nat \<Rightarrow> intel_bo \<Rightarrow> u32 \<Rightarrow> u32 \<Rightarrow> error + intel_cmd" where
  "cmd_batch_reloc cmd pos bo bo_offset flags =
     cmd_writer_reloc cmd INTEL_CMD_WRITER_BATCH (pos * 4) (TARGET_BO bo) bo_offset flags"

definition cmd_batch_reloc_writer ::
  "intel_cmd \<Rightarrow> nat \<Rightarrow> intel_cmd_writer_type \<Rightarrow> u32 \<Rightarrow> error + intel_cmd" where
  "cmd_batch_reloc_writer cmd pos w writer_offset =
     cmd_writer_reloc cmd INTEL_CMD_WRITER_BATCH (pos * 4) (TARGET_WRITER w) writer_offset
       INTEL_CMD_RELOC_TARGET_IS_WRITER"

text \<open>
  \<open>cmd_surface_write\<close> copies \<open>len\<close> dwords into the surface writer and returns the byte
  offset as a \<open>uint32_t\<close>. Its callers pass \<open>INTEL_CMD_ITEM_SURFACE\<close> or
  \<open>INTEL_CMD_ITEM_BINDING_TABLE\<close>, which is what its first assertion checks. The size
  \<open>len << 2\<close> is computed in \<open>uint32_t\<close>, and the offset returned by the reservation is
  held in a \<open>uint32_t\<close>; \<open>copied_dwords\<close> is what \<open>memcpy(dst, dw, len << 2)\<close> copies.
\<close>

definition surface_write_size :: "nat \<Rightarrow> nat" where
  "surface_write_size len = (len * 4) mod 2 ^ 32"

definition copied_dwords :: "nat \<Rightarrow> u32 list \<Rightarrow> u32 list" where
  "copied_dwords len dw = take (surface_write_size len div 4) dw"

definition cmd_surface_write ::
  "intel_cmd \<Rightarrow> nat \<Rightarrow> nat \<Rightarrow> u32 list \<Rightarrow> error + (u32 \<times> intel_cmd)" where
  "cmd_surface_write cmd alignment len dw =
     and_then (cmd_writer_reserve cmd INTEL_CMD_WRITER_SURFACE alignment (surface_write_size len))
       (\<lambda>(offs, cmd1).
          let offset = offs mod 2 ^ 32 in
          if alignment mod 32 \<noteq> 0 then Inl AssertFailed
          else if length dw < surface_write_size len div 4 then Inl MemoryFault
          else
            let cmd2 = set_writer cmd1 INTEL_CMD_WRITER_SURFACE
                         ((writers cmd1 INTEL_CMD_WRITER_SURFACE)
                            \<lparr>used := offset + surface_write_size len\<rparr>)
            in Inr (word_of_nat offset,
                    writer_store cmd2 INTEL_CMD_WRITER_SURFACE offset
                      (Dwords (copied_dwords len dw))))"

definition cmd_surface_reloc ::
  "intel_cmd \<Rightarrow> u32 \<Rightarrow> nat \<Rightarrow> intel_bo \<Rightarrow> u32 \<Rightarrow> u32 \<Rightarrow> error + intel_cmd" where
  "cmd_surface_reloc cmd offs dw_index bo bo_offset flags =
     cmd_writer_reloc cmd INTEL_CMD_WRITER_SURFACE (unat (offs + word_of_nat (dw_index * 4)))
       (TARGET_BO bo) bo_offset flags"

text \<open>
  \<open>cmd_instruction_write\<close>: the kernel is copied at a 64-byte aligned offset, with 128
  bytes reserved after it for the prefetch.
\<close>

definition cmd_instruction_write ::
  "intel_cmd \<Rightarrow> nat \<Rightarrow> 8 word list \<Rightarrow> error + (u32 \<times> intel_cmd)" where
  "cmd_instruction_write cmd sz kern =
     and_then (cmd_writer_reserve cmd INTEL_CMD_WRITER_INSTRUCTION 64 (sz + 128))
       (\<lambda>(offs, cmd1).
          if length kern < sz then Inl MemoryFault
          else
            let cmd2 = writer_store cmd1 INTEL_CMD_WRITER_INSTRUCTION offs (Bytes (take sz kern))
            in Inr (word_of_nat offs,
                    set_writer cmd2 INTEL_CMD_WRITER_INSTRUCTION
                      ((writers cmd2 INTEL_CMD_WRITER_INSTRUCTION)\<lparr>used := offs + sz\<rparr>)))"

section \<open>PIPE_CONTROL and the workarounds\<close>

text \<open>
  \<open>gen6_PIPE_CONTROL\<close> writes a five-dword packet \<open>[dw0, dw1, 0, imm lo, imm hi]\<close> and, when
  a buffer object is given, one relocation for its third dword.
\<close>

definition pipe_control_bit_test :: "intel_cmd \<Rightarrow> u32" where
  "pipe_control_bit_test cmd =
     (let bit_test = GEN6_PIPE_CONTROL_RENDER_CACHE_FLUSH OR
                     GEN6_PIPE_CONTROL_DEPTH_CACHE_FLUSH OR
                     GEN6_PIPE_CONTROL_PIXEL_SCOREBOARD_STALL OR
                     GEN6_PIPE_CONTROL_DEPTH_STALL;
          bit_test1 = bit_test OR (GEN6_PIPE_CONTROL_WRITE_IMM OR
                     GEN6_PIPE_CONTROL_WRITE_PS_DEPTH_COUNT OR
                     GEN6_PIPE_CONTROL_WRITE_TIMESTAMP)
      in if cmd_gen cmd = INTEL_GEN_6 then bit_test1 OR GEN6_PIPE_CONTROL_NOTIFY_ENABLE
         else bit_test1)"

definition gen6_PIPE_CONTROL ::
  "intel_cmd \<Rightarrow> u32 \<Rightarrow> intel_bo option \<Rightarrow> u32 \<Rightarrow> u64 \<Rightarrow> error + intel_cmd" where
  "gen6_PIPE_CONTROL cmd dw1 bo bo_offset imm =
     (let cmd_len = 5;
          dw0 = GEN6_RENDER_CMD_3D_PIPE_CONTROL OR (word_of_nat (cmd_len - 2))
      in
      if \<not> CMD_ASSERT cmd INTEL_GEN_6 INTEL_GEN_7_5 then Inl AssertFailed
      else if unat bo_offset mod 8 \<noteq> 0 then Inl AssertFailed
      else if dw1 AND GEN6_PIPE_CONTROL_CS_STALL \<noteq> 0 \<and>
              dw1 AND pipe_control_bit_test cmd = 0 then Inl AssertFailed
      else if dw1 AND GEN6_PIPE_CONTROL_DEPTH_STALL \<noteq> 0 \<and>
              dw1 AND (GEN6_PIPE_CONTROL_RENDER_CACHE_FLUSH OR
                       GEN6_PIPE_CONTROL_DEPTH_CACHE_FLUSH) \<noteq> 0 then Inl AssertFailed
      else
        let ggtt = (cmd_gen cmd = INTEL_GEN_6 \<and> bo \<noteq> None);
            bo_offset1 = (if ggtt then bo_offset OR GEN6_PIPE_CONTROL_DW2_USE_GGTT else bo_offset);
            flags = (if ggtt then INTEL_RELOC_WRITE OR INTEL_RELOC_GGTT else INTEL_RELOC_WRITE)
        in and_then (cmd_batch_pointer cmd cmd_len) (\<lambda>(pos, cmd1).
             let cmd2 = batch_store cmd1 pos
                          [dw0, dw1, 0, ucast imm, ucast (drop_bit 32 imm)]
             in case bo of
                  None \<Rightarrow> Inr cmd2
                | Some b \<Rightarrow>
                    and_then (cmd_reserve_reloc cmd2 1) (\<lambda>cmd3.
                      cmd_batch_reloc cmd3 (pos + 2) b bo_offset1 flags)))"

definition cmd_wa_gen6_pre_depth_stall_write :: "intel_cmd \<Rightarrow> error + intel_cmd" where
  "cmd_wa_gen6_pre_depth_stall_write cmd =
     (if \<not> CMD_ASSERT cmd INTEL_GEN_6 INTEL_GEN_7_5 then Inl AssertFailed
      else if draw_count (bind cmd) = 0 then Inr cmd
      else if wa_flags (bind cmd) AND INTEL_CMD_WA_GEN6_PRE_DEPTH_STALL_WRITE \<noteq> 0 then Inr cmd
      else
        let cmd1 = cmd\<lparr>bind := (bind cmd)\<lparr>wa_flags :=
                     wa_flags (bind cmd) OR INTEL_CMD_WA_GEN6_PRE_DEPTH_STALL_WRITE\<rparr>\<rparr>
        in and_then
             (gen6_PIPE_CONTROL cmd1
                (GEN6_PIPE_CONTROL_CS_STALL OR GEN6_PIPE_CONTROL_PIXEL_SCOREBOARD_STALL)
                None 0 0)
             (\<lambda>cmd2. gen6_PIPE_CONTROL cmd2 GEN6_PIPE_CONTROL_WRITE_IMM (scratch_bo cmd2) 0 0))"







section \<open>The synchronization packet\<close>

definition cmd_batch_flush :: "intel_cmd \<Rightarrow> u32 \<Rightarrow> error + intel_cmd" where
  "cmd_batch_flush cmd pipe_control_dw0 =
     (if pipe_control_dw0 = 0 then Inr cmd
      else if draw_count (bind cmd) = 0 then Inr cmd
      else if pipe_control_dw0 AND GEN6_PIPE_CONTROL_WRITE__MASK \<noteq> 0 then Inl AssertFailed
      else
        and_then
          (if pipe_control_dw0 AND GEN6_PIPE_CONTROL_RENDER_CACHE_FLUSH \<noteq> 0
           then cmd_wa_gen6_pre_depth_stall_write cmd else Inr cmd)
          (\<lambda>cmd1.
             let dw0 =
               (if pipe_control_dw0 AND GEN6_PIPE_CONTROL_CS_STALL \<noteq> 0 \<and>
                   pipe_control_dw0 AND (GEN6_PIPE_CONTROL_RENDER_CACHE_FLUSH OR
                                         GEN6_PIPE_CONTROL_DEPTH_CACHE_FLUSH OR
                                         GEN6_PIPE_CONTROL_PIXEL_SCOREBOARD_STALL OR
                                         GEN6_PIPE_CONTROL_DEPTH_STALL) = 0
                then pipe_control_dw0 OR GEN6_PIPE_CONTROL_PIXEL_SCOREBOARD_STALL
                else pipe_control_dw0)
             in gen6_PIPE_CONTROL cmd1 dw0 None 0 0))"

definition cmd_batch_flush_all :: "intel_cmd \<Rightarrow> error + intel_cmd" where
  "cmd_batch_flush_all cmd =
     cmd_batch_flush cmd
       (GEN6_PIPE_CONTROL_INSTRUCTION_CACHE_INVALIDATE OR
        GEN6_PIPE_CONTROL_RENDER_CACHE_FLUSH OR
        GEN6_PIPE_CONTROL_DEPTH_CACHE_FLUSH OR
        GEN6_PIPE_CONTROL_VF_CACHE_INVALIDATE OR
        GEN6_PIPE_CONTROL_TEXTURE_CACHE_INVALIDATE OR
        GEN6_PIPE_CONTROL_CS_STALL)"

section \<open>Barriers\<close>

text \<open>The two enumerations at the head of \<open>cmd_barrier.c\<close>.\<close>

definition READ_OP :: u32 where "READ_OP = 0x1"
definition WRITE_OP :: u32 where "WRITE_OP = 0x2"
definition HIZ_OP :: u32 where "HIZ_OP = 0x4"

definition MEM_CACHE :: u32 where "MEM_CACHE = 0x1"
definition DATA_READ_CACHE :: u32 where "DATA_READ_CACHE = 0x2"
definition DATA_WRITE_CACHE :: u32 where "DATA_WRITE_CACHE = 0x4"
definition RENDER_CACHE :: u32 where "RENDER_CACHE = 0x8"
definition SAMPLER_CACHE :: u32 where "SAMPLER_CACHE = 0x10"

text \<open>The Vulkan enumerations and bit masks the barrier code reads (\<open>vulkan.h\<close>).\<close>

datatype VkImageLayout =
    VK_IMAGE_LAYOUT_UNDEFINED
  | VK_IMAGE_LAYOUT_GENERAL
  | VK_IMAGE_LAYOUT_COLOR_ATTACHMENT_OPTIMAL
  | VK_IMAGE_LAYOUT_DEPTH_STENCIL_ATTACHMENT_OPTIMAL
  | VK_IMAGE_LAYOUT_DEPTH_STENCIL_READ_ONLY_OPTIMAL
  | VK_IMAGE_LAYOUT_SHADER_READ_ONLY_OPTIMAL
  | VK_IMAGE_LAYOUT_TRANSFER_SRC_OPTIMAL
  | VK_IMAGE_LAYOUT_TRANSFER_DST_OPTIMAL
  | VK_IMAGE_LAYOUT_PREINITIALIZED
  | VK_IMAGE_LAYOUT_PRESENT_SRC_KHR
  | VK_IMAGE_LAYOUT_OTHER int

datatype VkStructureType =
    VK_STRUCTURE_TYPE_MEMORY_BARRIER
  | VK_STRUCTURE_TYPE_BUFFER_MEMORY_BARRIER
  | VK_STRUCTURE_TYPE_IMAGE_MEMORY_BARRIER
  | VK_STRUCTURE_TYPE_OTHER nat

definition VK_ACCESS_INDIRECT_COMMAND_READ_BIT :: u32 where
  "VK_ACCESS_INDIRECT_COMMAND_READ_BIT = 0x1"
definition VK_ACCESS_INDEX_READ_BIT :: u32 where
  "VK_ACCESS_INDEX_READ_BIT = 0x2"
definition VK_ACCESS_VERTEX_ATTRIBUTE_READ_BIT :: u32 where
  "VK_ACCESS_VERTEX_ATTRIBUTE_READ_BIT = 0x4"
definition VK_ACCESS_UNIFORM_READ_BIT :: u32 where
  "VK_ACCESS_UNIFORM_READ_BIT = 0x8"
definition VK_ACCESS_SHADER_READ_BIT :: u32 where
  "VK_ACCESS_SHADER_READ_BIT = 0x20"
definition VK_ACCESS_SHADER_WRITE_BIT :: u32 where
  "VK_ACCESS_SHADER_WRITE_BIT = 0x40"
definition VK_ACCESS_COLOR_ATTACHMENT_WRITE_BIT :: u32 where
  "VK_ACCESS_COLOR_ATTACHMENT_WRITE_BIT = 0x100"
definition VK_ACCESS_DEPTH_STENCIL_ATTACHMENT_WRITE_BIT :: u32 where
  "VK_ACCESS_DEPTH_STENCIL_ATTACHMENT_WRITE_BIT = 0x400"
definition VK_ACCESS_HOST_READ_BIT :: u32 where
  "VK_ACCESS_HOST_READ_BIT = 0x2000"
definition VK_ACCESS_HOST_WRITE_BIT :: u32 where
  "VK_ACCESS_HOST_WRITE_BIT = 0x4000"

definition VK_PIPELINE_STAGE_TOP_OF_PIPE_BIT :: u32 where
  "VK_PIPELINE_STAGE_TOP_OF_PIPE_BIT = 0x1"
definition VK_PIPELINE_STAGE_HOST_BIT :: u32 where
  "VK_PIPELINE_STAGE_HOST_BIT = 0x4000"

record VkImageSubresourceRange =
  aspectMask :: u32
  baseMipLevel :: u32
  levelCount :: u32
  baseArrayLayer :: u32
  layerCount :: u32

text \<open>
  An image, as the barrier code sees it: \<open>img_is_ds\<close> is
  \<open>icd_format_is_ds(img->layout.format)\<close>.
\<close>

record intel_img =
  img_id :: nat
  img_is_ds :: bool

record VkMemoryBarrier =
  mb_sType :: VkStructureType
  mb_srcAccessMask :: u32
  mb_dstAccessMask :: u32

record VkBufferMemoryBarrier =
  bb_sType :: VkStructureType
  bb_srcAccessMask :: u32
  bb_dstAccessMask :: u32

record VkImageMemoryBarrier =
  ib_sType :: VkStructureType
  ib_srcAccessMask :: u32
  ib_dstAccessMask :: u32
  ib_oldLayout :: VkImageLayout
  ib_newLayout :: VkImageLayout
  ib_image :: intel_img
  ib_subresourceRange :: VkImageSubresourceRange

datatype intel_cmd_meta_ds_op =
    INTEL_CMD_META_DS_NOP
  | INTEL_CMD_META_DS_HIZ_CLEAR
  | INTEL_CMD_META_DS_HIZ_RESOLVE
  | INTEL_CMD_META_DS_RESOLVE

definition img_get_layout_ops :: "VkImageLayout \<Rightarrow> u32" where
  "img_get_layout_ops layout =
     (case layout of
        VK_IMAGE_LAYOUT_GENERAL \<Rightarrow> READ_OP OR WRITE_OP
      | VK_IMAGE_LAYOUT_PRESENT_SRC_KHR \<Rightarrow> READ_OP OR WRITE_OP
      | VK_IMAGE_LAYOUT_COLOR_ATTACHMENT_OPTIMAL \<Rightarrow> READ_OP OR WRITE_OP
      | VK_IMAGE_LAYOUT_DEPTH_STENCIL_ATTACHMENT_OPTIMAL \<Rightarrow> READ_OP OR WRITE_OP OR HIZ_OP
      | VK_IMAGE_LAYOUT_DEPTH_STENCIL_READ_ONLY_OPTIMAL \<Rightarrow> READ_OP OR HIZ_OP
      | VK_IMAGE_LAYOUT_SHADER_READ_ONLY_OPTIMAL \<Rightarrow> READ_OP
      | VK_IMAGE_LAYOUT_TRANSFER_SRC_OPTIMAL \<Rightarrow> READ_OP
      | VK_IMAGE_LAYOUT_TRANSFER_DST_OPTIMAL \<Rightarrow> WRITE_OP
      | _ \<Rightarrow> 0)"

definition img_get_layout_caches :: "VkImageLayout \<Rightarrow> u32" where
  "img_get_layout_caches layout =
     (case layout of
        VK_IMAGE_LAYOUT_GENERAL \<Rightarrow>
          MEM_CACHE OR DATA_READ_CACHE OR DATA_WRITE_CACHE OR RENDER_CACHE OR SAMPLER_CACHE
      | VK_IMAGE_LAYOUT_PRESENT_SRC_KHR \<Rightarrow>
          MEM_CACHE OR DATA_READ_CACHE OR DATA_WRITE_CACHE OR RENDER_CACHE OR SAMPLER_CACHE
      | VK_IMAGE_LAYOUT_COLOR_ATTACHMENT_OPTIMAL \<Rightarrow> DATA_WRITE_CACHE OR RENDER_CACHE
      | VK_IMAGE_LAYOUT_DEPTH_STENCIL_ATTACHMENT_OPTIMAL \<Rightarrow> DATA_WRITE_CACHE OR RENDER_CACHE
      | VK_IMAGE_LAYOUT_DEPTH_STENCIL_READ_ONLY_OPTIMAL \<Rightarrow> RENDER_CACHE
      | VK_IMAGE_LAYOUT_SHADER_READ_ONLY_OPTIMAL \<Rightarrow> DATA_READ_CACHE OR SAMPLER_CACHE
      | VK_IMAGE_LAYOUT_TRANSFER_SRC_OPTIMAL \<Rightarrow>
          MEM_CACHE OR DATA_READ_CACHE OR RENDER_CACHE OR SAMPLER_CACHE
      | VK_IMAGE_LAYOUT_TRANSFER_DST_OPTIMAL \<Rightarrow> MEM_CACHE OR DATA_WRITE_CACHE OR RENDER_CACHE
      | _ \<Rightarrow> 0)"

text \<open>
  \<open>cmd_meta_ds_op\<close> is defined in \<open>cmd_meta.c\<close>, which is not among the sources; the
  functions that call it take it as the parameter \<open>meta_ds_op\<close>.
\<close>

type_synonym meta_ds_op_fn =
  "intel_cmd \<Rightarrow> intel_cmd_meta_ds_op \<Rightarrow> intel_img \<Rightarrow> VkImageSubresourceRange \<Rightarrow> error + intel_cmd"

definition cmd_resolve_depth ::
  "meta_ds_op_fn \<Rightarrow> intel_cmd \<Rightarrow> intel_img \<Rightarrow> VkImageLayout \<Rightarrow> VkImageLayout \<Rightarrow>
   VkImageSubresourceRange \<Rightarrow> error + intel_cmd" where
  "cmd_resolve_depth meta_ds_op cmd img old_layout new_layout rng =
     (let old_ops = img_get_layout_ops old_layout;
          new_ops = img_get_layout_ops new_layout
      in if old_ops AND WRITE_OP \<noteq> 0 then
           (if old_ops AND HIZ_OP \<noteq> 0 \<and> \<not> new_ops AND HIZ_OP \<noteq> 0
            then meta_ds_op cmd INTEL_CMD_META_DS_RESOLVE img rng
            else if \<not> old_ops AND HIZ_OP \<noteq> 0 \<and> new_ops AND HIZ_OP \<noteq> 0
            then meta_ds_op cmd INTEL_CMD_META_DS_HIZ_RESOLVE img rng
            else Inr cmd)
         else Inr cmd)"

definition cmd_get_flush_flags :: "intel_cmd \<Rightarrow> u32 \<Rightarrow> u32 \<Rightarrow> bool \<Rightarrow> u32" where
  "cmd_get_flush_flags cmd old_caches new_caches is_ds =
     (if old_caches AND (MEM_CACHE OR RENDER_CACHE OR DATA_WRITE_CACHE) = 0 then 0
      else
        let flags1 =
              (if old_caches AND RENDER_CACHE \<noteq> 0 \<and> new_caches AND NOT RENDER_CACHE \<noteq> 0
               then (if is_ds then GEN6_PIPE_CONTROL_DEPTH_CACHE_FLUSH
                     else GEN6_PIPE_CONTROL_RENDER_CACHE_FLUSH)
               else 0);
            flags2 =
              (if old_caches AND DATA_WRITE_CACHE \<noteq> 0 \<and>
                  new_caches AND NOT (DATA_READ_CACHE OR DATA_WRITE_CACHE) \<noteq> 0 \<and>
                  cmd_gen cmd \<ge> INTEL_GEN_7
               then flags1 OR GEN7_PIPE_CONTROL_DC_FLUSH else flags1);
            flags3 =
              (if new_caches AND SAMPLER_CACHE \<noteq> 0
               then flags2 OR GEN6_PIPE_CONTROL_TEXTURE_CACHE_INVALIDATE else flags2);
            flags4 =
              (if new_caches AND DATA_READ_CACHE \<noteq> 0 \<and> old_caches \<noteq> DATA_WRITE_CACHE
               then flags3 OR GEN6_PIPE_CONTROL_CONSTANT_CACHE_INVALIDATE else flags3)
        in if flags4 = 0 then 0 else flags4 OR GEN6_PIPE_CONTROL_CS_STALL)"

text \<open>
  The three loops of \<open>cmd_memory_barriers\<close>. The accumulator of the first two is
  \<open>(input_mask, output_mask)\<close>; the third also threads the command buffer and
  \<open>flush_flags\<close>.
\<close>

fun mem_barriers_loop :: "VkMemoryBarrier list \<Rightarrow> u32 \<times> u32 \<Rightarrow> error + (u32 \<times> u32)" where
  "mem_barriers_loop [] acc = Inr acc"
| "mem_barriers_loop (b # bs) (input_mask, output_mask) =
     (if mb_sType b \<noteq> VK_STRUCTURE_TYPE_MEMORY_BARRIER then Inl AssertFailed
      else mem_barriers_loop bs
             (input_mask OR mb_dstAccessMask b, output_mask OR mb_srcAccessMask b))"

fun buf_mem_barriers_loop ::
  "VkBufferMemoryBarrier list \<Rightarrow> u32 \<times> u32 \<Rightarrow> error + (u32 \<times> u32)" where
  "buf_mem_barriers_loop [] acc = Inr acc"
| "buf_mem_barriers_loop (b # bs) (input_mask, output_mask) =
     (if bb_sType b \<noteq> VK_STRUCTURE_TYPE_BUFFER_MEMORY_BARRIER then Inl AssertFailed
      else buf_mem_barriers_loop bs
             (input_mask OR bb_dstAccessMask b, output_mask OR bb_srcAccessMask b))"

fun image_mem_barriers_loop ::
  "meta_ds_op_fn \<Rightarrow> VkImageMemoryBarrier list \<Rightarrow> intel_cmd \<times> u32 \<times> u32 \<times> u32 \<Rightarrow>
   error + (intel_cmd \<times> u32 \<times> u32 \<times> u32)" where
  "image_mem_barriers_loop meta_ds_op [] acc = Inr acc"
| "image_mem_barriers_loop meta_ds_op (b # bs) (cmd, flush_flags, input_mask, output_mask) =
     (if ib_sType b \<noteq> VK_STRUCTURE_TYPE_IMAGE_MEMORY_BARRIER then Inl AssertFailed
      else
        and_then
          (cmd_resolve_depth meta_ds_op cmd (ib_image b) (ib_oldLayout b) (ib_newLayout b)
             (ib_subresourceRange b))
          (\<lambda>cmd1.
             image_mem_barriers_loop meta_ds_op bs
               (cmd1,
                flush_flags OR
                  cmd_get_flush_flags cmd1 (img_get_layout_caches (ib_oldLayout b))
                    (img_get_layout_caches (ib_newLayout b)) (img_is_ds (ib_image b)),
                input_mask OR ib_dstAccessMask b,
                output_mask OR ib_srcAccessMask b)))"

text \<open>The flag bits \<open>cmd_memory_barriers\<close> adds from the two access masks, after the loops.\<close>

definition access_mask_flush_flags :: "u32 \<Rightarrow> u32 \<Rightarrow> u32 \<Rightarrow> u32" where
  "access_mask_flush_flags flush_flags input_mask output_mask =
     (let f1 = (if output_mask AND VK_ACCESS_SHADER_WRITE_BIT \<noteq> 0
                then flush_flags OR GEN7_PIPE_CONTROL_DC_FLUSH else flush_flags);
          f2 = (if output_mask AND VK_ACCESS_COLOR_ATTACHMENT_WRITE_BIT \<noteq> 0
                then f1 OR GEN6_PIPE_CONTROL_RENDER_CACHE_FLUSH else f1);
          f3 = (if output_mask AND VK_ACCESS_DEPTH_STENCIL_ATTACHMENT_WRITE_BIT \<noteq> 0
                then f2 OR GEN6_PIPE_CONTROL_DEPTH_CACHE_FLUSH else f2);
          f4 = (if input_mask AND (VK_ACCESS_SHADER_READ_BIT OR VK_ACCESS_UNIFORM_READ_BIT) \<noteq> 0
                then f3 OR GEN6_PIPE_CONTROL_TEXTURE_CACHE_INVALIDATE else f3);
          f5 = (if input_mask AND VK_ACCESS_UNIFORM_READ_BIT \<noteq> 0
                then f4 OR GEN6_PIPE_CONTROL_CONSTANT_CACHE_INVALIDATE else f4);
          f6 = (if input_mask AND VK_ACCESS_VERTEX_ATTRIBUTE_READ_BIT \<noteq> 0
                then f5 OR GEN6_PIPE_CONTROL_VF_CACHE_INVALIDATE else f5)
      in f6)"

definition cmd_memory_barriers ::
  "meta_ds_op_fn \<Rightarrow> intel_cmd \<Rightarrow> u32 \<Rightarrow> VkMemoryBarrier list \<Rightarrow> VkBufferMemoryBarrier list \<Rightarrow>
   VkImageMemoryBarrier list \<Rightarrow> error + intel_cmd" where
  "cmd_memory_barriers meta_ds_op cmd flush_flags mem_barriers buf_mem_barriers
     image_mem_barriers =
     and_then (mem_barriers_loop mem_barriers (0, 0)) (\<lambda>masks1.
     and_then (buf_mem_barriers_loop buf_mem_barriers masks1) (\<lambda>(input_mask2, output_mask2).
     and_then (image_mem_barriers_loop meta_ds_op image_mem_barriers
                 (cmd, flush_flags, input_mask2, output_mask2))
       (\<lambda>(cmd3, flush_flags3, input_mask3, output_mask3).
          cmd_batch_flush cmd3
            (access_mask_flush_flags flush_flags3 input_mask3 output_mask3))))"


definition vkCmdPipelineBarrier ::
  "meta_ds_op_fn \<Rightarrow> intel_cmd \<Rightarrow> u32 \<Rightarrow> u32 \<Rightarrow> u32 \<Rightarrow> VkMemoryBarrier list \<Rightarrow>
   VkBufferMemoryBarrier list \<Rightarrow> VkImageMemoryBarrier list \<Rightarrow> error + intel_cmd" where
  "vkCmdPipelineBarrier meta_ds_op cmd srcStageMask dstStageMask dependencyFlags
     pMemoryBarriers pBufferMemoryBarriers pImageMemoryBarriers =
     (let pipe_control_flags =
            (if srcStageMask AND NOT VK_PIPELINE_STAGE_HOST_BIT \<noteq> 0 \<or>
                dstStageMask AND NOT VK_PIPELINE_STAGE_HOST_BIT \<noteq> 0
             then GEN6_PIPE_CONTROL_CS_STALL else 0)
      in cmd_memory_barriers meta_ds_op cmd pipe_control_flags pMemoryBarriers
           pBufferMemoryBarriers pImageMemoryBarriers)"

section \<open>Unimplemented entry points\<close>

text \<open>
  The last entry points of \<open>cmd_pipeline.c\<close>. Four of them are \<open>assert(0 && "...")\<close>;
  the body of \<open>vkCmdPushConstants\<close> is the comment \<open>TODO: Implement\<close> and nothing else.
\<close>

definition vkCmdDrawIndirect ::
  "intel_cmd \<Rightarrow> nat \<Rightarrow> u64 \<Rightarrow> u32 \<Rightarrow> u32 \<Rightarrow> error + intel_cmd" where
  "vkCmdDrawIndirect cmd buffer offs drawCount stride = Inl AssertFailed"

definition vkCmdDrawIndexedIndirect ::
  "intel_cmd \<Rightarrow> nat \<Rightarrow> u64 \<Rightarrow> u32 \<Rightarrow> u32 \<Rightarrow> error + intel_cmd" where
  "vkCmdDrawIndexedIndirect cmd buffer offs drawCount stride = Inl AssertFailed"

definition vkCmdDispatch :: "intel_cmd \<Rightarrow> u32 \<Rightarrow> u32 \<Rightarrow> u32 \<Rightarrow> error + intel_cmd" where
  "vkCmdDispatch cmd x y z = Inl AssertFailed"

definition vkCmdDispatchIndirect :: "intel_cmd \<Rightarrow> nat \<Rightarrow> u64 \<Rightarrow> error + intel_cmd" where
  "vkCmdDispatchIndirect cmd buffer offs = Inl AssertFailed"

definition vkCmdPushConstants ::
  "intel_cmd \<Rightarrow> nat \<Rightarrow> u32 \<Rightarrow> u32 \<Rightarrow> u32 \<Rightarrow> 8 word list \<Rightarrow> error + intel_cmd" where
  "vkCmdPushConstants cmd layout stageFlags offs sz pValues = Inr cmd"

section \<open>Shader cache\<close>

text \<open>
  \<open>emit_shader\<close> looks the shader up by the address of its \<open>struct intel_pipeline_shader\<close>
  (\<open>shader_ptr\<close>); \<open>entries\<close> holds the \<open>used\<close> entries of the cache in order and
  \<open>cache_count\<close> is its capacity. \<open>intel_alloc\<close> is not among the sources: whether the
  allocation that grows the cache succeeds is the parameter \<open>alloc\<close>, asked in the state
  in which the call is made.
\<close>

definition emit_shader ::
  "(intel_cmd \<Rightarrow> bool) \<Rightarrow> intel_cmd \<Rightarrow> intel_pipeline_shader \<Rightarrow> error + (u32 \<times> intel_cmd)" where
  "emit_shader alloc cmd shader =
     (case find (\<lambda>e. fst e = shader_ptr shader) (entries (shader_cache (bind cmd))) of
        Some e \<Rightarrow> Inr (snd e, cmd)
      | None \<Rightarrow>
          and_then (cmd_instruction_write cmd (codeSize shader) (pCode shader)) (\<lambda>(offs, cmd1).
            let cache1 = shader_cache (bind cmd1);
                cache2 = (if length (entries cache1) \<ge> cache_count cache1
                          then (if alloc cmd1 then cache1\<lparr>cache_count := cache_count cache1 + 16\<rparr>
                                else cache1)
                          else cache1);
                cache3 = (if length (entries cache2) < cache_count cache2
                          then cache2\<lparr>entries := entries cache2 @ [(shader_ptr shader, offs)]\<rparr>
                          else cache2)
            in Inr (offs, cmd1\<lparr>bind := (bind cmd1)\<lparr>shader_cache := cache3\<rparr>\<rparr>)))"

section \<open>Binding tables\<close>

definition GEN6_ALIGNMENT_SURFACE_STATE :: nat where "GEN6_ALIGNMENT_SURFACE_STATE = 32"
definition GEN6_ALIGNMENT_BINDING_TABLE_STATE :: nat where
  "GEN6_ALIGNMENT_BINDING_TABLE_STATE = 32"

definition rmap_surface_count :: "intel_pipeline_rmap option \<Rightarrow> u32" where
  "rmap_surface_count rm =
     (case rm of
        None \<Rightarrow> 0
      | Some r \<Rightarrow> rt_count r + texture_resource_count r + resource_count r + uav_count r)"

definition intel_desc_offset_add :: "intel_desc_offset \<Rightarrow> intel_desc_offset \<Rightarrow> intel_desc_offset" where
  "intel_desc_offset_add lhs rhs =
     \<lparr>surface = surface lhs + surface rhs, sampler = sampler lhs + sampler rhs\<rparr>"

text \<open>
  The view of a render-target slot: the attachment of the current subpass and framebuffer,
  or NULL (\<open>None\<close>) when the slot's index is beyond the subpass's colour attachments or the
  attachment index is beyond the framebuffer's views.
\<close>

definition rt_slot_view :: "intel_cmd \<Rightarrow> intel_pipeline_rmap_slot \<Rightarrow> error + intel_att_view option" where
  "rt_slot_view cmd slot =
     (case render_pass_subpass (bind cmd) of
        None \<Rightarrow> Inl MemoryFault
      | Some subpass \<Rightarrow>
          if slot_index slot < color_count subpass then
            (if \<not> unat (slot_index slot) < length (color_indices subpass) then Inl MemoryFault
             else
               case fb (bind cmd) of
                 None \<Rightarrow> Inl MemoryFault
               | Some f \<Rightarrow>
                   let ci = color_indices subpass ! unat (slot_index slot) in
                   if ci < view_count f then
                     (if \<not> unat ci < length (views f) then Inl MemoryFault
                      else Inr (Some (views f ! unat ci)))
                   else Inr None)
          else Inr None)"

definition write_null_view :: "intel_cmd \<Rightarrow> error + (u32 \<times> intel_cmd)" where
  "write_null_view cmd =
     cmd_surface_write cmd GEN6_ALIGNMENT_SURFACE_STATE (length (null_view_cmd cmd))
       (null_view_cmd cmd)"

text \<open>
  One iteration of the loop of \<open>emit_binding_table\<close>: the surface state of the slot is
  written to the surface writer and its offset returned. \<open>desc_region\<close> is
  \<open>intel_desc_region_read_surface\<close>, whose definition is not among the sources.
\<close>

definition emit_binding_table_slot ::
  "intel_cmd \<Rightarrow> u32 \<Rightarrow> intel_pipeline_rmap_slot \<Rightarrow> error + (u32 \<times> intel_cmd)" where
  "emit_binding_table_slot cmd stage slot =
     (case slot_type slot of
        INTEL_PIPELINE_RMAP_RT \<Rightarrow>
          and_then (rt_slot_view cmd slot) (\<lambda>v.
            case v of
              Some view \<Rightarrow>
                and_then (cmd_surface_write cmd GEN6_ALIGNMENT_SURFACE_STATE
                            (unat (att_cmd_len view)) (att_cmd view)) (\<lambda>(offs, cmd1).
                and_then (cmd_reserve_reloc cmd1 1) (\<lambda>cmd2.
                  if length (att_cmd view) < 2 then Inl MemoryFault
                  else
                    and_then (cmd_surface_reloc cmd2 offs 1 (att_bo view) (att_cmd view ! 1)
                                INTEL_RELOC_WRITE) (\<lambda>cmd3. Inr (offs, cmd3))))
            | None \<Rightarrow> write_null_view cmd)
      | INTEL_PIPELINE_RMAP_SURFACE \<Rightarrow>
          (let dyn_idx = dynamic_offset_index slot in
           if \<not> (dyn_idx < 0 \<or>
                   dyn_idx < uint (total_dynamic_desc_count (pipeline_graphics (bind cmd))))
           then Inl AssertFailed
           else if \<not> unat (slot_index slot) < length (set_offsets (bind cmd)) then Inl MemoryFault
           else
             let desc_offset = intel_desc_offset_add (surface_offset slot)
                                 (set_offsets (bind cmd) ! unat (slot_index slot));
                 d = desc_region cmd desc_offset stage
             in case desc_mem d of
                  Some bo \<Rightarrow>
                    if dyn_idx \<ge> 0 \<and> \<not> nat dyn_idx < length (dynamic_offsets (bind cmd))
                    then Inl MemoryFault
                    else
                      let dynamic_offset = (if dyn_idx \<ge> 0
                                            then dynamic_offsets (bind cmd) ! nat dyn_idx else 0);
                          flags = (if desc_read_only d then 0 else INTEL_RELOC_WRITE)
                      in and_then (cmd_surface_write cmd GEN6_ALIGNMENT_SURFACE_STATE
                                     (unat (desc_cmd_len d)) (desc_cmd d)) (\<lambda>(offs, cmd1).
                         and_then (cmd_reserve_reloc cmd1 1) (\<lambda>cmd2.
                           if length (desc_cmd d) < 2 then Inl MemoryFault
                           else
                             and_then (cmd_surface_reloc cmd2 offs 1 bo
                                         (desc_cmd d ! 1 + dynamic_offset) flags)
                               (\<lambda>cmd3. Inr (offs, cmd3))))
                | None \<Rightarrow> write_null_view cmd)
      | INTEL_PIPELINE_RMAP_UNUSED \<Rightarrow> write_null_view cmd
      | INTEL_PIPELINE_RMAP_SAMPLER \<Rightarrow> Inl AssertFailed)"

fun binding_table_loop ::
  "u32 \<Rightarrow> u32 \<Rightarrow> intel_pipeline_rmap_slot list \<Rightarrow> intel_cmd \<times> u32 list \<Rightarrow>
   error + (intel_cmd \<times> u32 list)" where
  "binding_table_loop stage sba [] acc = Inr acc"
| "binding_table_loop stage sba (slot # rest) (cmd, binding_table) =
     and_then (emit_binding_table_slot cmd stage slot) (\<lambda>(offs, cmd1).
       binding_table_loop stage sba rest (cmd1, binding_table @ [offs - sba]))"

definition emit_binding_table ::
  "intel_cmd \<Rightarrow> intel_pipeline_rmap option \<Rightarrow> u32 \<Rightarrow> error + (u32 \<times> intel_cmd)" where
  "emit_binding_table cmd rm stage =
     (let sba = (word_of_nat (sba_offset (writers cmd INTEL_CMD_WRITER_SURFACE)) :: u32);
          surface_count = rmap_surface_count rm
      in
      if \<not> CMD_ASSERT cmd INTEL_GEN_6 INTEL_GEN_7_5 then Inl AssertFailed
      else if surface_count = 0 then Inr (0, cmd)
      else if \<not> surface_count \<le> 256 then Inl AssertFailed
      else
        case rm of
          None \<Rightarrow> Inr (0, cmd)
        | Some r \<Rightarrow>
            and_then (binding_table_loop stage sba (take (unat surface_count) (slots r)) (cmd, []))
              (\<lambda>(cmd1, binding_table).
                 if length (slots r) < unat surface_count then Inl MemoryFault
                 else
                   and_then (cmd_surface_write cmd1 GEN6_ALIGNMENT_BINDING_TABLE_STATE
                               (unat surface_count) binding_table) (\<lambda>(offs, cmd2).
                     let offs1 = offs - sba in
                     if \<not> unat offs1 + 4 * unat surface_count \<le> 64 * 1024
                     then Inl AssertFailed
                     else Inr (offs1, cmd2))))"

section \<open>Draws\<close>

text \<open>
  A draw emits, between the workarounds, the fixed-function packets of the pipeline. These
  emitters (\<open>set_viewport_state\<close>, \<open>gen6_3DSTATE_*\<close>, \<open>gen7_*\<close>, \<open>emit_shader_resources\<close>,
  \<open>gen6_meta_*\<close>, \<open>cmd_adjust_state_base_address\<close>) call no workaround and write neither
  \<open>draw_count\<close> nor \<open>wa_flags\<close>; the draw functions take them as the parameter \<open>ff\<close>, one
  constructor for each emitter or group of consecutive emitters, with the arguments the
  draw passes.
\<close>

datatype ff_emitter =
    FF_adjust_state_base_address
  | FF_set_viewport_state
  | FF_3DSTATE_MULTISAMPLE
  | FF_3DSTATE_DRAWING_RECTANGLE
  | FF_depth_buffers
  | FF_gen6_states
  | FF_gen7_states
  | FF_emit_shader_resources
  | FF_3DSTATE_VERTEX_BUFFERS
  | FF_3DSTATE_VS
  | FF_3DSTATE_VF bool u32
  | FF_3DSTATE_INDEX_BUFFER bool
  | FF_3DPRIMITIVE gen6_3dprim bool u32 u32 u32 u32 u32
  | FF_meta_dynamic_states
  | FF_meta_surface_states
  | FF_meta_urb
  | FF_meta_vf
  | FF_meta_vs
  | FF_meta_disabled
  | FF_meta_clip
  | FF_meta_wm
  | FF_meta_ps
  | FF_meta_depth_buffer

type_synonym ff_fn = "ff_emitter \<Rightarrow> intel_cmd \<Rightarrow> error + intel_cmd"









definition draw_finish :: "intel_cmd \<Rightarrow> error + intel_cmd" where
  "draw_finish cmd =
     (if intel_debug cmd AND INTEL_DEBUG_NOCACHE \<noteq> 0 then cmd_batch_flush_all cmd
      else Inr cmd)"


datatype intel_cmd_meta_mode =
    INTEL_CMD_META_VS_POINTS
  | INTEL_CMD_META_FS_RECT
  | INTEL_CMD_META_DEPTH_STENCIL_RECT






section \<open>Observations on a recording\<close>

text \<open>
  What the properties below say about a command buffer is read off the batch: the packets
  stored so far, which of them are PIPE_CONTROLs, and their flag words.
\<close>

definition batch_stored :: "intel_cmd \<Rightarrow> (nat \<times> payload) list" where
  "batch_stored cmd = stored (writers cmd INTEL_CMD_WRITER_BATCH)"

definition PIPE_CONTROL_HEADER :: u32 where
  "PIPE_CONTROL_HEADER = GEN6_RENDER_CMD_3D_PIPE_CONTROL OR 3"

text \<open>The flag word of a stored item when it is a PIPE_CONTROL packet.\<close>

definition pipe_control_flags_of :: "nat \<times> payload \<Rightarrow> u32 option" where
  "pipe_control_flags_of item =
     (case snd item of
        Dwords dw \<Rightarrow> (if length dw = 5 \<and> dw ! 0 = PIPE_CONTROL_HEADER then Some (dw ! 1) else None)
      | Bytes b \<Rightarrow> None)"

definition GEN6_PIPE_CONTROL_COMPANION_MASK :: u32 where
  "GEN6_PIPE_CONTROL_COMPANION_MASK =
     GEN6_PIPE_CONTROL_RENDER_CACHE_FLUSH OR GEN6_PIPE_CONTROL_DEPTH_CACHE_FLUSH OR
     GEN6_PIPE_CONTROL_PIXEL_SCOREBOARD_STALL OR GEN6_PIPE_CONTROL_DEPTH_STALL"

text \<open>A flag word obeys the stall rule when the CS stall bit comes with a companion bit.\<close>

definition stall_rule :: "u32 \<Rightarrow> bool" where
  "stall_rule flags \<longleftrightarrow>
     (flags AND GEN6_PIPE_CONTROL_CS_STALL \<noteq> 0 \<longrightarrow>
      flags AND GEN6_PIPE_CONTROL_COMPANION_MASK \<noteq> 0)"

definition item_stall_ok :: "nat \<times> payload \<Rightarrow> bool" where
  "item_stall_ok item =
     (case pipe_control_flags_of item of None \<Rightarrow> True | Some flags \<Rightarrow> stall_rule flags)"


text \<open>The items stored in the batch by a step from \<open>cmd\<close> to \<open>cmd'\<close>.\<close>

definition batch_new :: "intel_cmd \<Rightarrow> intel_cmd \<Rightarrow> (nat \<times> payload) list" where
  "batch_new cmd cmd' = drop (length (batch_stored cmd)) (batch_stored cmd')"

text \<open>
  The packet sequence of \<open>cmd_wa_gen6_pre_depth_stall_write\<close> is a PIPE_CONTROL with the
  CS stall and the scoreboard stall followed by a PIPE_CONTROL whose flag word is the
  immediate write alone; \<open>count_wa_seq\<close> counts its occurrences in a batch.
\<close>

definition is_wa_stall :: "nat \<times> payload \<Rightarrow> bool" where
  "is_wa_stall item \<longleftrightarrow>
     pipe_control_flags_of item =
       Some (GEN6_PIPE_CONTROL_CS_STALL OR GEN6_PIPE_CONTROL_PIXEL_SCOREBOARD_STALL)"

definition is_wa_write :: "nat \<times> payload \<Rightarrow> bool" where
  "is_wa_write item \<longleftrightarrow> pipe_control_flags_of item = Some GEN6_PIPE_CONTROL_WRITE_IMM"




text \<open>The relocation table is well formed: as long as its capacity, and not over-full.\<close>

definition reloc_inv :: "intel_cmd \<Rightarrow> bool" where
  "reloc_inv cmd \<longleftrightarrow>
     length (relocs cmd) = unat (reloc_count cmd) \<and> reloc_used cmd \<le> reloc_count cmd"

section \<open>Example recordings\<close>

text \<open>Concrete command buffers, on which the properties are instantiated.\<close>

definition example_writer :: intel_cmd_writer where
  "example_writer = \<lparr>wsize = 4096, used = 0, sba_offset = 0, stored = []\<rparr>"

definition example_shader :: "nat \<Rightarrow> intel_pipeline_shader" where
  "example_shader p = \<lparr>shader_ptr = p, pCode = [1, 2, 3, 4], codeSize = 4, rmap = None\<rparr>"

definition example_pipeline :: intel_pipeline where
  "example_pipeline =
     \<lparr>prim_type = GEN6_3DPRIM_TRILIST, primitive_restart = False, primitive_restart_index = 0,
      pipeline_wa_flags = 0, active_shaders = 0x11, pipeline_cmd_len = 1,
      pipeline_cmds = [0], vs = example_shader 100, tcs = example_shader 200,
      tes = example_shader 300, gs = example_shader 400, fs = example_shader 500,
      total_dynamic_desc_count = 0\<rparr>"

definition example_bind :: intel_cmd_bind where
  "example_bind =
     \<lparr>pipeline_graphics = example_pipeline, vs_offset = 0, tcs_offset = 0, tes_offset = 0,
      gs_offset = 0, fs_offset = 0, index_buf = \<lparr>buf_size = 64, buf_bo = 7\<rparr>,
      index_offset = 0, index_type = VK_INDEX_TYPE_UINT16, set_offsets = [],
      dynamic_offsets = [], render_pass_changed = True, render_pass_subpass = None,
      fb = None, draw_count = 0, wa_flags = 0,
      shader_cache = \<lparr>entries = [], cache_count = 0\<rparr>, meta_bound = False\<rparr>"

definition example_reloc :: intel_cmd_reloc where
  "example_reloc = \<lparr>which = INTEL_CMD_WRITER_BATCH, reloc_offset = 0, target = TARGET_BO 0,
                    target_offset = 0, reloc_flags = 0\<rparr>"

definition example_cmd :: intel_cmd where
  "example_cmd =
     \<lparr>gen = 700, intel_debug = 0, null_view_cmd = [0, 0, 0, 0, 0, 0, 0, 0],
      desc_region = (\<lambda>offs stage. \<lparr>desc_mem = None, desc_read_only = True, desc_cmd = [],
                                    desc_cmd_len = 0\<rparr>),
      scratch_bo = Some 1, alloc_limit = 65536, writers = (\<lambda>w. example_writer),
      relocs = replicate 8 example_reloc, reloc_count = 8, reloc_used = 0,
      result = VK_SUCCESS, bind = example_bind\<rparr>"

text \<open>The same command buffer after \<open>n\<close> draws have been counted.\<close>

definition example_cmd_drawn :: "u32 \<Rightarrow> intel_cmd" where
  "example_cmd_drawn n = example_cmd\<lparr>bind := example_bind\<lparr>draw_count := n\<rparr>\<rparr>"

definition example_ff :: ff_fn where
  "example_ff k cmd = Inr cmd"

text \<open>
  The relocation operations of a recording, in order: a reservation of \<open>n\<close> entries or the
  addition of one entry.
\<close>

datatype reloc_op =
    RESERVE u32
  | RELOC intel_cmd_writer_type nat reloc_target u32 u32

fun reloc_ops :: "intel_cmd \<Rightarrow> reloc_op list \<Rightarrow> error + intel_cmd" where
  "reloc_ops cmd [] = Inr cmd"
| "reloc_ops cmd (RESERVE n # rest) =
     and_then (cmd_reserve_reloc cmd n) (\<lambda>cmd1. reloc_ops cmd1 rest)"
| "reloc_ops cmd (RELOC w offs tgt tgt_offset flags # rest) =
     and_then (cmd_writer_reloc cmd w offs tgt tgt_offset flags) (\<lambda>cmd1. reloc_ops cmd1 rest)"

text \<open>Two command buffers with the same device, descriptor region and binding state.\<close>

definition same_core :: "intel_cmd \<Rightarrow> intel_cmd \<Rightarrow> bool" where
  "same_core cmd cmd' \<longleftrightarrow>
     gen cmd' = gen cmd \<and> intel_debug cmd' = intel_debug cmd \<and>
     scratch_bo cmd' = scratch_bo cmd \<and> null_view_cmd cmd' = null_view_cmd cmd \<and>
     desc_region cmd' = desc_region cmd \<and> bind cmd' = bind cmd"

text \<open>The PIPE_CONTROL packet as \<open>gen6_PIPE_CONTROL\<close> stores it, at a byte offset of the batch.\<close>

definition pipe_control_item :: "nat \<Rightarrow> u32 \<Rightarrow> u64 \<Rightarrow> nat \<times> payload" where
  "pipe_control_item offs dw1 imm =
     (offs, Dwords [PIPE_CONTROL_HEADER, dw1, 0, ucast imm, ucast (drop_bit 32 imm)])"

text \<open>The batch of a result: what is stored in it when the call returned, nothing otherwise.\<close>

definition result_batch :: "error + intel_cmd \<Rightarrow> (nat \<times> payload) list" where
  "result_batch r = (case r of Inr cmd \<Rightarrow> batch_stored cmd | Inl e \<Rightarrow> [])"

definition example_meta_ds_op :: meta_ds_op_fn where
  "example_meta_ds_op cmd op img rng = Inr cmd"

definition example_host_write_barrier :: VkMemoryBarrier where
  "example_host_write_barrier =
     \<lparr>mb_sType = VK_STRUCTURE_TYPE_MEMORY_BARRIER,
      mb_srcAccessMask = VK_ACCESS_HOST_WRITE_BIT, mb_dstAccessMask = 0\<rparr>"

text \<open>The flag word \<open>cmd_batch_flush\<close> passes to \<open>gen6_PIPE_CONTROL\<close>.\<close>

definition flush_word :: "u32 \<Rightarrow> u32" where
  "flush_word flags = (if flags AND GEN6_PIPE_CONTROL_CS_STALL \<noteq> 0 \<and>
         flags AND (GEN6_PIPE_CONTROL_RENDER_CACHE_FLUSH OR GEN6_PIPE_CONTROL_DEPTH_CACHE_FLUSH OR
                    GEN6_PIPE_CONTROL_PIXEL_SCOREBOARD_STALL OR GEN6_PIPE_CONTROL_DEPTH_STALL) = 0
      then flags OR GEN6_PIPE_CONTROL_PIXEL_SCOREBOARD_STALL else flags)"

text \<open>
  Two calls of \<open>emit_shader\<close>, one after the other: the two offsets returned and what the
  instruction writer then holds.
\<close>

definition emit_shader_twice ::
  "(intel_cmd \<Rightarrow> bool) \<Rightarrow> intel_cmd \<Rightarrow> intel_pipeline_shader \<Rightarrow> intel_pipeline_shader \<Rightarrow>
   error + (u32 \<times> u32 \<times> (nat \<times> payload) list)" where
  "emit_shader_twice alloc cmd s1 s2 =
     and_then (emit_shader alloc cmd s1) (\<lambda>(offs1, cmd1).
     and_then (emit_shader alloc cmd1 s2) (\<lambda>(offs2, cmd2).
       Inr (offs1, offs2, stored (writers cmd2 INTEL_CMD_WRITER_INSTRUCTION))))"

definition example_alloc :: "intel_cmd \<Rightarrow> bool" where
  "example_alloc cmd = True"

text \<open>A second pipeline, whose vertex shader has the code of the first at another address.\<close>

definition example_pipeline2 :: intel_pipeline where
  "example_pipeline2 = example_pipeline\<lparr>vs := example_shader 600\<rparr>"

section \<open>Invariants of a draw\<close>















section \<open>Observations on the surface writer\<close>

text \<open>What is stored in the surface writer, and the size in bytes of a stored item.\<close>

definition surface_stored :: "intel_cmd \<Rightarrow> (nat \<times> payload) list" where
  "surface_stored cmd = stored (writers cmd INTEL_CMD_WRITER_SURFACE)"

definition payload_size :: "payload \<Rightarrow> nat" where
  "payload_size p = (case p of Dwords dw \<Rightarrow> 4 * length dw | Bytes b \<Rightarrow> length b)"

text \<open>
  \<open>records_from u items\<close>: the items lie one after the other at or after the byte offset
  \<open>u\<close>, none overlapping the one before; the result is the end of the last one.
\<close>

fun records_from :: "nat \<Rightarrow> (nat \<times> payload) list \<Rightarrow> nat option" where
  "records_from u [] = Some u"
| "records_from u (item # rest) =
     (if u \<le> fst item then records_from (fst item + payload_size (snd item)) rest else None)"

text \<open>
  The dwords \<open>d\<close> are a surface state for the slot: the null view, or for a render-target
  slot the command of its attachment view, or for a surface slot the command of its
  descriptor when the descriptor has memory.
\<close>

definition surface_record ::
  "intel_cmd \<Rightarrow> u32 \<Rightarrow> intel_pipeline_rmap_slot \<Rightarrow> u32 list \<Rightarrow> bool" where
  "surface_record cmd stage slot d \<longleftrightarrow>
     d = copied_dwords (length (null_view_cmd cmd)) (null_view_cmd cmd) \<or>
     (case slot_type slot of
        INTEL_PIPELINE_RMAP_RT \<Rightarrow>
          (case rt_slot_view cmd slot of
             Inr (Some view) \<Rightarrow> d = copied_dwords (unat (att_cmd_len view)) (att_cmd view)
           | _ \<Rightarrow> False)
      | INTEL_PIPELINE_RMAP_SURFACE \<Rightarrow>
          (let dd = desc_region cmd
                      (intel_desc_offset_add (surface_offset slot)
                         (set_offsets (bind cmd) ! unat (slot_index slot))) stage
           in desc_mem dd \<noteq> None \<and> d = copied_dwords (unat (desc_cmd_len dd)) (desc_cmd dd))
      | _ \<Rightarrow> False)"

text \<open>
  A binding-table entry \<open>e\<close> refers to a stored item when the entry plus the surface base
  offset is the item's offset, and the item is a surface state for the slot.
\<close>

definition binding_table_entry ::
  "intel_cmd \<Rightarrow> u32 \<Rightarrow> u32 \<Rightarrow> intel_pipeline_rmap_slot \<Rightarrow> nat \<times> payload \<Rightarrow> u32 \<Rightarrow> bool" where
  "binding_table_entry cmd stage sba slot item e \<longleftrightarrow>
     (case snd item of
        Dwords d \<Rightarrow> e + sba = word_of_nat (fst item) \<and> surface_record cmd stage slot d
      | Bytes b \<Rightarrow> False)"

text \<open>
  A step from \<open>cmd\<close> to \<open>cmd'\<close> that only appends \<open>items\<close> to the surface writer: the
  device, descriptor region and bindings are the same, the base offset is the same, the
  writer has not shrunk, and below 4 GiB the items are laid out from the old end of the
  writer.
\<close>

definition surface_appended :: "intel_cmd \<Rightarrow> intel_cmd \<Rightarrow> (nat \<times> payload) list \<Rightarrow> bool" where
  "surface_appended cmd cmd' items \<longleftrightarrow>
     same_core cmd cmd' \<and>
     sba_offset (writers cmd' INTEL_CMD_WRITER_SURFACE)
       = sba_offset (writers cmd INTEL_CMD_WRITER_SURFACE) \<and>
     wsize (writers cmd INTEL_CMD_WRITER_SURFACE) \<le> wsize (writers cmd' INTEL_CMD_WRITER_SURFACE) \<and>
     surface_stored cmd' = surface_stored cmd @ items \<and>
     (wsize (writers cmd' INTEL_CMD_WRITER_SURFACE) < 2 ^ 32 \<longrightarrow>
        records_from (used (writers cmd INTEL_CMD_WRITER_SURFACE)) items
          = Some (used (writers cmd' INTEL_CMD_WRITER_SURFACE)))"

text \<open>
  A resource map of five slots: a render target of the subpass, a render target beyond the
  subpass's attachments, a descriptor with memory, an empty descriptor, and an unused slot;
  and a command buffer with one attachment view bound.
\<close>

definition example_view :: intel_att_view where
  "example_view = \<lparr>att_cmd = [1, 2, 3, 4, 5, 6, 7, 8], att_cmd_len = 8, att_bo = 9\<rparr>"

definition example_desc_surface :: intel_desc_surface where
  "example_desc_surface =
     \<lparr>desc_mem = Some 5, desc_read_only = True, desc_cmd = [9, 9, 9, 9], desc_cmd_len = 4\<rparr>"

definition example_rmap :: intel_pipeline_rmap where
  "example_rmap =
     \<lparr>rt_count = 2, texture_resource_count = 0, resource_count = 2, uav_count = 1,
      slots =
        [\<lparr>slot_type = INTEL_PIPELINE_RMAP_RT, slot_index = 0,
          surface_offset = \<lparr>surface = 0, sampler = 0\<rparr>, dynamic_offset_index = - 1\<rparr>,
         \<lparr>slot_type = INTEL_PIPELINE_RMAP_RT, slot_index = 1,
          surface_offset = \<lparr>surface = 0, sampler = 0\<rparr>, dynamic_offset_index = - 1\<rparr>,
         \<lparr>slot_type = INTEL_PIPELINE_RMAP_SURFACE, slot_index = 0,
          surface_offset = \<lparr>surface = 64, sampler = 0\<rparr>, dynamic_offset_index = - 1\<rparr>,
         \<lparr>slot_type = INTEL_PIPELINE_RMAP_SURFACE, slot_index = 0,
          surface_offset = \<lparr>surface = 0, sampler = 0\<rparr>, dynamic_offset_index = - 1\<rparr>,
         \<lparr>slot_type = INTEL_PIPELINE_RMAP_UNUSED, slot_index = 0,
          surface_offset = \<lparr>surface = 0, sampler = 0\<rparr>, dynamic_offset_index = - 1\<rparr>]\<rparr>"

definition example_table_cmd :: intel_cmd where
  "example_table_cmd =
     example_cmd
       \<lparr>desc_region := (\<lambda>offs stage.
            if surface offs = 64 then example_desc_surface
            else \<lparr>desc_mem = None, desc_read_only = True, desc_cmd = [], desc_cmd_len = 0\<rparr>),
        bind := example_bind
          \<lparr>set_offsets := [\<lparr>surface = 0, sampler = 0\<rparr>],
           render_pass_subpass := Some \<lparr>color_indices = [0], color_count = 1\<rparr>,
           fb := Some \<lparr>views = [example_view], view_count = 1\<rparr>\<rparr>\<rparr>"

section \<open>Properties\<close>

subsection \<open>Sequencing\<close>

lemma and_then_Inr_iff: "and_then r f = Inr y \<longleftrightarrow> (\<exists>x. r = Inr x \<and> f x = Inr y)"
  by (cases r) (simp_all add: and_then_def)

lemma and_then_Inr [simp]: "and_then (Inr x) f = f x"
  by (simp add: and_then_def)

lemma and_then_Inl [simp]: "and_then (Inl e) f = Inl e"
  by (simp add: and_then_def)

lemma and_then_Inl_iff:
  "and_then r f = Inl e \<longleftrightarrow> r = Inl e \<or> (\<exists>x. r = Inr x \<and> f x = Inl e)"
  by (cases r) (simp_all add: and_then_def)

subsection \<open>Relocation table\<close>

lemma cmd_reserve_reloc_Inr:
  assumes "cmd_reserve_reloc cmd n = Inr cmd1"
  shows "relocs cmd1 = relocs cmd" "reloc_count cmd1 = reloc_count cmd"
    "reloc_used cmd1 + n \<le> reloc_count cmd"
    "reloc_used cmd + n > reloc_count cmd \<Longrightarrow>
       reloc_used cmd1 = 0 \<and> result cmd1 = VK_ERROR_VALIDATION_FAILED_EXT"
    "\<not> reloc_used cmd + n > reloc_count cmd \<Longrightarrow> cmd1 = cmd"
  using assms by (auto simp: cmd_reserve_reloc_def cmd_fail_def Let_def split: if_splits)

lemma cmd_reserve_reloc_inv:
  "reloc_inv cmd \<Longrightarrow> cmd_reserve_reloc cmd n = Inr cmd1 \<Longrightarrow> reloc_inv cmd1"
  by (auto simp: cmd_reserve_reloc_def cmd_fail_def reloc_inv_def Let_def split: if_splits)

lemma cmd_reserve_reloc_no_fault: "cmd_reserve_reloc cmd n \<noteq> Inl MemoryFault"
  by (simp add: cmd_reserve_reloc_def Let_def)

lemma cmd_reserve_reloc_failed:
  "result cmd \<noteq> VK_SUCCESS \<Longrightarrow> cmd_reserve_reloc cmd n = Inr cmd1 \<Longrightarrow> result cmd1 \<noteq> VK_SUCCESS"
  by (auto simp: cmd_reserve_reloc_def cmd_fail_def Let_def split: if_splits)

lemma cmd_reserve_reloc_total:
  "n \<le> reloc_count cmd \<Longrightarrow> \<exists>cmd1. cmd_reserve_reloc cmd n = Inr cmd1"
  by (auto simp: cmd_reserve_reloc_def cmd_fail_def Let_def not_less)

lemma cmd_writer_reloc_Inr:
  assumes "cmd_writer_reloc cmd w offs tgt toffs fl = Inr cmd1"
  shows "reloc_used cmd < reloc_count cmd" "unat (reloc_used cmd) < length (relocs cmd)"
    "reloc_used cmd1 = reloc_used cmd + 1" "reloc_count cmd1 = reloc_count cmd"
    "relocs cmd1 = (relocs cmd)[unat (reloc_used cmd) :=
        \<lparr>which = w, reloc_offset = offs, target = tgt, target_offset = toffs, reloc_flags = fl\<rparr>]"
    "result cmd1 = result cmd"
  using assms by (auto simp: cmd_writer_reloc_def split: if_splits)

lemma cmd_writer_reloc_inv:
  "reloc_inv cmd \<Longrightarrow> cmd_writer_reloc cmd w offs tgt toffs fl = Inr cmd1 \<Longrightarrow> reloc_inv cmd1"
  by (auto simp: cmd_writer_reloc_def reloc_inv_def inc_le split: if_splits)

lemma cmd_writer_reloc_no_fault:
  "reloc_inv cmd \<Longrightarrow> cmd_writer_reloc cmd w offs tgt toffs fl \<noteq> Inl MemoryFault"
  by (auto simp: cmd_writer_reloc_def reloc_inv_def word_less_nat_alt split: if_splits)

lemma reloc_ops_inv:
  "reloc_inv cmd \<Longrightarrow> reloc_ops cmd ops = Inr cmd' \<Longrightarrow>
     reloc_inv cmd' \<and> (result cmd \<noteq> VK_SUCCESS \<longrightarrow> result cmd' \<noteq> VK_SUCCESS)"
proof (induction ops arbitrary: cmd)
  case Nil
  then show ?case by simp
next
  case (Cons op ops)
  show ?case
  proof (cases op)
    case (RESERVE n)
    with Cons.prems obtain cmd1 where
      s: "cmd_reserve_reloc cmd n = Inr cmd1" and r: "reloc_ops cmd1 ops = Inr cmd'"
      by (auto simp: and_then_Inr_iff)
    from Cons.IH [OF cmd_reserve_reloc_inv [OF Cons.prems(1) s] r]
         cmd_reserve_reloc_failed [OF _ s]
    show ?thesis by blast
  next
    case (RELOC w offs tgt toffs fl)
    with Cons.prems obtain cmd1 where
      s: "cmd_writer_reloc cmd w offs tgt toffs fl = Inr cmd1"
      and r: "reloc_ops cmd1 ops = Inr cmd'"
      by (auto simp: and_then_Inr_iff)
    from Cons.IH [OF cmd_writer_reloc_inv [OF Cons.prems(1) s] r]
         cmd_writer_reloc_Inr(6) [OF s]
    show ?thesis by simp
  qed
qed

lemma reloc_ops_no_fault:
  "reloc_inv cmd \<Longrightarrow> reloc_ops cmd ops \<noteq> Inl MemoryFault"
proof (induction ops arbitrary: cmd)
  case Nil
  then show ?case by simp
next
  case (Cons op ops)
  show ?case
  proof (cases op)
    case (RESERVE n)
    with Cons show ?thesis
      by (auto simp: and_then_Inl_iff cmd_reserve_reloc_no_fault
          dest: cmd_reserve_reloc_inv)
  next
    case (RELOC w offs tgt toffs fl)
    with Cons show ?thesis
      by (auto simp: and_then_Inl_iff cmd_writer_reloc_no_fault
          dest: cmd_writer_reloc_inv)
  qed
qed

text \<open>
  Claim C7. On a well-formed relocation table (\<open>reloc_inv\<close>), whatever sequence of
  reservations and additions a recording makes: no entry is ever stored outside the table
  (no \<open>MemoryFault\<close>), the stored count stays within the capacity, and a failure code once
  set stays set. A reservation that would exceed the capacity
  (\<open>reloc_used + reloc_len > reloc_count\<close>) and returns has marked the command buffer with
  \<open>VK_ERROR_VALIDATION_FAILED_EXT\<close> and restarted the count at zero; it does return
  whenever \<open>reloc_len\<close> itself fits the table.
\<close>

theorem reloc_table_never_overrun:
  assumes "reloc_inv cmd"
  shows "reloc_ops cmd ops \<noteq> Inl MemoryFault \<and>
         (\<forall>cmd'. reloc_ops cmd ops = Inr cmd' \<longrightarrow>
            reloc_inv cmd' \<and> (result cmd \<noteq> VK_SUCCESS \<longrightarrow> result cmd' \<noteq> VK_SUCCESS)) \<and>
         (\<forall>n cmd1. reloc_used cmd + n > reloc_count cmd \<longrightarrow>
            cmd_reserve_reloc cmd n = Inr cmd1 \<longrightarrow>
            result cmd1 = VK_ERROR_VALIDATION_FAILED_EXT \<and> reloc_used cmd1 = 0 \<and>
            reloc_inv cmd1) \<and>
         (\<forall>n. n \<le> reloc_count cmd \<longrightarrow> (\<exists>cmd1. cmd_reserve_reloc cmd n = Inr cmd1))"
  using assms reloc_ops_no_fault [OF assms] reloc_ops_inv [OF assms]
    cmd_reserve_reloc_Inr(4) cmd_reserve_reloc_inv [OF assms] cmd_reserve_reloc_total
  by blast


subsection \<open>The synchronization packet is skipped when there is nothing to do\<close>

text \<open>
  Claim C5. \<open>cmd_batch_flush\<close> is a complete no-op when the flag word it is given is zero,
  or when no draw has yet been recorded on the command buffer (\<open>bind.draw_count\<close> is zero):
  it returns the command buffer as it was, so nothing is written to the batch.
\<close>

theorem cmd_batch_flush_noop:
  "flags = 0 \<or> draw_count (bind cmd) = 0 \<Longrightarrow> cmd_batch_flush cmd flags = Inr cmd"
  by (auto simp: cmd_batch_flush_def)

theorem cmd_batch_flush_noop_witness:
  "cmd_batch_flush (example_cmd_drawn 1) 0 = Inr (example_cmd_drawn 1) \<and>
   cmd_batch_flush (example_cmd_drawn 0) GEN6_PIPE_CONTROL_CS_STALL = Inr (example_cmd_drawn 0)"
  using cmd_batch_flush_noop [of 0 "example_cmd_drawn 1"]
        cmd_batch_flush_noop [of GEN6_PIPE_CONTROL_CS_STALL "example_cmd_drawn 0"]
  by (simp add: example_cmd_drawn_def)

subsection \<open>Unimplemented entry points\<close>

text \<open>
  Claim C9. Every unimplemented command-buffer operation fails loudly. The indirect draws
  and the dispatches do (their assertion fails whatever the arguments are), but
  \<open>vkCmdPushConstants\<close> returns normally and leaves the command buffer as it was.
\<close>

theorem vkCmdPushConstants_silent:
  "vkCmdPushConstants cmd layout stageFlags offs sz pValues = Inr cmd \<and>
   vkCmdDrawIndirect cmd buffer boffs drawCount stride = Inl AssertFailed \<and>
   vkCmdDrawIndexedIndirect cmd buffer boffs drawCount stride = Inl AssertFailed \<and>
   vkCmdDispatch cmd x y z = Inl AssertFailed \<and>
   vkCmdDispatchIndirect cmd buffer boffs = Inl AssertFailed"
  by (simp add: vkCmdPushConstants_def vkCmdDrawIndirect_def vkCmdDrawIndexedIndirect_def
      vkCmdDispatch_def vkCmdDispatchIndirect_def)

subsection \<open>Guard band\<close>

lemma guardband_clamp_range:
  "8192 \<le> m \<Longrightarrow> - m \<le> guardband_clamp m c - 4096 \<and> guardband_clamp m c + 4096 \<le> m"
  by (auto simp: guardband_clamp_def Let_def)

lemma viewport_get_guardband_square:
  "viewport_get_guardband g cx cy = (a, b, c, d) \<Longrightarrow>
     b - a = 8192 \<and> d - c = 8192 \<and>
     - guardband_max_extent g \<le> a \<and> b \<le> guardband_max_extent g \<and>
     - guardband_max_extent g \<le> c \<and> d \<le> guardband_max_extent g"
  using guardband_clamp_range [of "guardband_max_extent g" cx]
        guardband_clamp_range [of "guardband_max_extent g" cy]
  by (auto simp: viewport_get_guardband_def guardband_max_extent_def Let_def split: if_splits)

text \<open>
  Claim C10. The guard band is an 8192 by 8192 square within
  \<open>[-max_extent, max_extent - 1]\<close>. The square and the lower bound hold
  (\<open>viewport_get_guardband_square\<close>), but a centre at or beyond \<open>max_extent - 4096\<close> is
  clamped to \<open>max_extent - 4096\<close>, so the upper edge is \<open>max_extent\<close> itself, one beyond
  the extent: on generation 7 the centre \<open>(28672, 0)\<close> gives \<open>max_gbx = 32768\<close>.
\<close>

theorem viewport_get_guardband_exceeds_extent:
  "viewport_get_guardband INTEL_GEN_7 28672 0 = (24576, 32768, - 4096, 4096) \<and>
   guardband_max_extent INTEL_GEN_7 - 1 < 32768"
  by (simp add: viewport_get_guardband_def guardband_clamp_def guardband_max_extent_def
      INTEL_GEN_7_def)

theorem reloc_table_never_overrun_witness:
  "reloc_inv (example_cmd\<lparr>reloc_used := 7\<rparr>) \<and>
   reloc_ops (example_cmd\<lparr>reloc_used := 7\<rparr>)
     [RESERVE 2, RELOC INTEL_CMD_WRITER_BATCH 4 (TARGET_BO 9) 0 0,
      RELOC INTEL_CMD_WRITER_BATCH 8 (TARGET_BO 9) 0 0] \<noteq> Inl MemoryFault \<and>
   (\<exists>cmd'. reloc_ops (example_cmd\<lparr>reloc_used := 7\<rparr>)
     [RESERVE 2, RELOC INTEL_CMD_WRITER_BATCH 4 (TARGET_BO 9) 0 0,
      RELOC INTEL_CMD_WRITER_BATCH 8 (TARGET_BO 9) 0 0] = Inr cmd' \<and>
      reloc_inv cmd' \<and> reloc_used cmd' = 2 \<and> result cmd' = VK_ERROR_VALIDATION_FAILED_EXT)"
proof -
  have h: "reloc_inv (example_cmd\<lparr>reloc_used := 7\<rparr>)"
    by (simp add: reloc_inv_def example_cmd_def)
  show ?thesis
    using h reloc_table_never_overrun [OF h, of
      "[RESERVE 2, RELOC INTEL_CMD_WRITER_BATCH 4 (TARGET_BO 9) 0 0,
        RELOC INTEL_CMD_WRITER_BATCH 8 (TARGET_BO 9) 0 0]"]
    by (simp add: example_cmd_def cmd_reserve_reloc_def cmd_writer_reloc_def cmd_fail_def Let_def)
qed

subsection \<open>Writers\<close>

lemma set_writer_simps [simp]:
  "gen (set_writer cmd w wr) = gen cmd"
  "intel_debug (set_writer cmd w wr) = intel_debug cmd"
  "scratch_bo (set_writer cmd w wr) = scratch_bo cmd"
  "bind (set_writer cmd w wr) = bind cmd"
  "relocs (set_writer cmd w wr) = relocs cmd"
  "reloc_used (set_writer cmd w wr) = reloc_used cmd"
  "reloc_count (set_writer cmd w wr) = reloc_count cmd"
  "null_view_cmd (set_writer cmd w wr) = null_view_cmd cmd"
  "desc_region (set_writer cmd w wr) = desc_region cmd"
  "alloc_limit (set_writer cmd w wr) = alloc_limit cmd"
  "result (set_writer cmd w wr) = result cmd"
  "writers (set_writer cmd w wr) w' = (if w' = w then wr else writers cmd w')"
  by (simp_all add: set_writer_def)

lemma cmd_gen_set_writer [simp]: "cmd_gen (set_writer cmd w wr) = cmd_gen cmd"
  by (simp add: cmd_gen_def)

lemma same_core_refl [simp]: "same_core cmd cmd"
  by (simp add: same_core_def)

lemma same_core_trans: "same_core a b \<Longrightarrow> same_core b c \<Longrightarrow> same_core a c"
  by (simp add: same_core_def)

lemma cmd_writer_reserve_Inr:
  assumes "cmd_writer_reserve cmd w a sz = Inr (offs, cmd1)"
  shows "same_core cmd cmd1"
    "relocs cmd1 = relocs cmd" "reloc_used cmd1 = reloc_used cmd"
    "reloc_count cmd1 = reloc_count cmd"
    "stored (writers cmd1 w') = stored (writers cmd w')"
    "used (writers cmd1 w') = used (writers cmd w')"
    "sba_offset (writers cmd1 w') = sba_offset (writers cmd w')"
    "offs = u_align (used (writers cmd w)) a"
    "offs + sz \<le> wsize (writers cmd1 w)"
  using assms
  by (auto simp: cmd_writer_reserve_def cmd_writer_grow_def cmd_fail_def same_core_def Let_def
      split: if_splits)

lemma cmd_writer_reserve_other:
  "cmd_writer_reserve cmd w a sz = Inr (offs, cmd1) \<Longrightarrow> w' \<noteq> w \<Longrightarrow>
     writers cmd1 w' = writers cmd w'"
  by (auto simp: cmd_writer_reserve_def cmd_writer_grow_def cmd_fail_def Let_def
      split: if_splits)



lemma batch_store_simps [simp]:
  "gen (batch_store cmd pos dw) = gen cmd"
  "intel_debug (batch_store cmd pos dw) = intel_debug cmd"
  "scratch_bo (batch_store cmd pos dw) = scratch_bo cmd"
  "null_view_cmd (batch_store cmd pos dw) = null_view_cmd cmd"
  "desc_region (batch_store cmd pos dw) = desc_region cmd"
  "bind (batch_store cmd pos dw) = bind cmd"
  "relocs (batch_store cmd pos dw) = relocs cmd"
  "reloc_used (batch_store cmd pos dw) = reloc_used cmd"
  "reloc_count (batch_store cmd pos dw) = reloc_count cmd"
  "result (batch_store cmd pos dw) = result cmd"
  "batch_stored (batch_store cmd pos dw) = batch_stored cmd @ [(pos * 4, Dwords dw)]"
  "w' \<noteq> INTEL_CMD_WRITER_BATCH \<Longrightarrow> writers (batch_store cmd pos dw) w' = writers cmd w'"
  by (simp_all add: batch_store_def writer_store_def same_core_def batch_stored_def)


lemma cmd_reserve_reloc_core:
  assumes "cmd_reserve_reloc cmd n = Inr cmd1"
  shows "same_core cmd cmd1" "writers cmd1 = writers cmd"
  using assms
  by (auto simp: cmd_reserve_reloc_def cmd_fail_def same_core_def Let_def split: if_splits)


lemma gen6_PIPE_CONTROL_assert:
  "gen6_PIPE_CONTROL cmd dw1 bo boffs imm = Inr cmd' \<Longrightarrow>
   dw1 AND GEN6_PIPE_CONTROL_CS_STALL \<noteq> 0 \<Longrightarrow> dw1 AND pipe_control_bit_test cmd \<noteq> 0"
  by (auto simp: gen6_PIPE_CONTROL_def Let_def split: if_splits)


subsection \<open>PIPE_CONTROL packets and the stall rule\<close>

lemma pipe_control_flags_of_item [simp]:
  "pipe_control_flags_of (pipe_control_item offs dw1 imm) = Some dw1"
  by (simp add: pipe_control_flags_of_def pipe_control_item_def)

lemma item_stall_ok_item [simp]:
  "item_stall_ok (pipe_control_item offs dw1 imm) = stall_rule dw1"
  by (simp add: item_stall_ok_def)

lemma is_wa_write_item [simp]:
  "is_wa_write (pipe_control_item offs dw1 imm) \<longleftrightarrow> dw1 = GEN6_PIPE_CONTROL_WRITE_IMM"
  by (simp add: is_wa_write_def)

lemma is_wa_stall_item [simp]:
  "is_wa_stall (pipe_control_item offs dw1 imm) \<longleftrightarrow>
     dw1 = GEN6_PIPE_CONTROL_CS_STALL OR GEN6_PIPE_CONTROL_PIXEL_SCOREBOARD_STALL"
  by (simp add: is_wa_stall_def)



lemma stall_rule_bit:
  "flags AND GEN6_PIPE_CONTROL_PIXEL_SCOREBOARD_STALL \<noteq> 0 \<Longrightarrow> stall_rule flags"
proof -
  assume a: "flags AND GEN6_PIPE_CONTROL_PIXEL_SCOREBOARD_STALL \<noteq> 0"
  have "flags AND GEN6_PIPE_CONTROL_PIXEL_SCOREBOARD_STALL =
        (flags AND GEN6_PIPE_CONTROL_COMPANION_MASK) AND GEN6_PIPE_CONTROL_PIXEL_SCOREBOARD_STALL"
    by (simp add: and.assoc GEN6_PIPE_CONTROL_COMPANION_MASK_def
        GEN6_PIPE_CONTROL_PIXEL_SCOREBOARD_STALL_def GEN6_PIPE_CONTROL_RENDER_CACHE_FLUSH_def
        GEN6_PIPE_CONTROL_DEPTH_CACHE_FLUSH_def GEN6_PIPE_CONTROL_DEPTH_STALL_def)
  with a show ?thesis by (auto simp: stall_rule_def)
qed

lemma or_scoreboard_stall:
  "(flags OR GEN6_PIPE_CONTROL_PIXEL_SCOREBOARD_STALL) AND
     GEN6_PIPE_CONTROL_PIXEL_SCOREBOARD_STALL \<noteq> 0"
  by (simp add: word_ao_absorbs GEN6_PIPE_CONTROL_PIXEL_SCOREBOARD_STALL_def)

lemma stall_rule_flush_word:
  "stall_rule
     (if flags AND GEN6_PIPE_CONTROL_CS_STALL \<noteq> 0 \<and>
         flags AND (GEN6_PIPE_CONTROL_RENDER_CACHE_FLUSH OR GEN6_PIPE_CONTROL_DEPTH_CACHE_FLUSH OR
                    GEN6_PIPE_CONTROL_PIXEL_SCOREBOARD_STALL OR GEN6_PIPE_CONTROL_DEPTH_STALL) = 0
      then flags OR GEN6_PIPE_CONTROL_PIXEL_SCOREBOARD_STALL else flags)"
  using stall_rule_bit [OF or_scoreboard_stall [of flags]]
  by (auto simp: stall_rule_def GEN6_PIPE_CONTROL_COMPANION_MASK_def)

lemma stall_rule_wa [simp]:
  "stall_rule (GEN6_PIPE_CONTROL_CS_STALL OR GEN6_PIPE_CONTROL_PIXEL_SCOREBOARD_STALL)"
  "stall_rule GEN6_PIPE_CONTROL_WRITE_IMM"
  by (simp_all add: stall_rule_def GEN6_PIPE_CONTROL_COMPANION_MASK_def
      GEN6_PIPE_CONTROL_CS_STALL_def GEN6_PIPE_CONTROL_PIXEL_SCOREBOARD_STALL_def
      GEN6_PIPE_CONTROL_WRITE_IMM_def GEN6_PIPE_CONTROL_RENDER_CACHE_FLUSH_def
      GEN6_PIPE_CONTROL_DEPTH_CACHE_FLUSH_def GEN6_PIPE_CONTROL_DEPTH_STALL_def)

lemma wa_flag_set [simp]:
  "(x OR INTEL_CMD_WA_GEN6_PRE_DEPTH_STALL_WRITE) AND INTEL_CMD_WA_GEN6_PRE_DEPTH_STALL_WRITE \<noteq> 0"
  by (simp add: word_ao_absorbs INTEL_CMD_WA_GEN6_PRE_DEPTH_STALL_WRITE_def)


subsection \<open>Barriers never emit the CS stall alone\<close>




lemma cmd_batch_flush_early:
  "flags = 0 \<or> draw_count (bind cmd) = 0 \<Longrightarrow> cmd_batch_flush cmd flags = Inr cmd"
  by (auto simp: cmd_batch_flush_def)


lemma stall_rule_flush_word' [simp]: "stall_rule (flush_word flags)"
  using stall_rule_flush_word [of flags] by (simp add: flush_word_def)









subsection \<open>Evaluation on the example recordings\<close>

lemmas pipe_control_bits =
  GEN6_PIPE_CONTROL_DEPTH_CACHE_FLUSH_def GEN6_PIPE_CONTROL_PIXEL_SCOREBOARD_STALL_def
  GEN6_PIPE_CONTROL_CONSTANT_CACHE_INVALIDATE_def GEN6_PIPE_CONTROL_VF_CACHE_INVALIDATE_def
  GEN7_PIPE_CONTROL_DC_FLUSH_def GEN6_PIPE_CONTROL_NOTIFY_ENABLE_def
  GEN6_PIPE_CONTROL_TEXTURE_CACHE_INVALIDATE_def GEN6_PIPE_CONTROL_INSTRUCTION_CACHE_INVALIDATE_def
  GEN6_PIPE_CONTROL_RENDER_CACHE_FLUSH_def GEN6_PIPE_CONTROL_DEPTH_STALL_def
  GEN6_PIPE_CONTROL_WRITE_IMM_def GEN6_PIPE_CONTROL_WRITE_PS_DEPTH_COUNT_def
  GEN6_PIPE_CONTROL_WRITE_TIMESTAMP_def GEN6_PIPE_CONTROL_WRITE__MASK_def
  GEN6_PIPE_CONTROL_CS_STALL_def GEN6_PIPE_CONTROL_DW2_USE_GGTT_def
  GEN6_RENDER_CMD_3D_PIPE_CONTROL_def INTEL_RELOC_GGTT_def INTEL_RELOC_WRITE_def

lemmas access_bits =
  VK_ACCESS_INDIRECT_COMMAND_READ_BIT_def VK_ACCESS_INDEX_READ_BIT_def
  VK_ACCESS_VERTEX_ATTRIBUTE_READ_BIT_def VK_ACCESS_UNIFORM_READ_BIT_def
  VK_ACCESS_SHADER_READ_BIT_def VK_ACCESS_SHADER_WRITE_BIT_def
  VK_ACCESS_COLOR_ATTACHMENT_WRITE_BIT_def VK_ACCESS_DEPTH_STENCIL_ATTACHMENT_WRITE_BIT_def
  VK_ACCESS_HOST_READ_BIT_def VK_ACCESS_HOST_WRITE_BIT_def
  VK_PIPELINE_STAGE_TOP_OF_PIPE_BIT_def VK_PIPELINE_STAGE_HOST_BIT_def

lemmas example_defs =
  example_cmd_drawn_def example_cmd_def example_bind_def example_writer_def
  example_pipeline_def example_shader_def example_reloc_def example_ff_def
  example_meta_ds_op_def example_host_write_barrier_def

lemmas writer_defs =
  cmd_batch_pointer_def cmd_writer_reserve_def cmd_writer_grow_def cmd_fail_def
  u_is_pow2_def u_align_def set_writer_def batch_store_def writer_store_def
  cmd_reserve_reloc_def cmd_writer_reloc_def cmd_batch_reloc_def

lemmas pipe_control_defs =
  gen6_PIPE_CONTROL_def pipe_control_bit_test_def CMD_ASSERT_def cmd_gen_def
  INTEL_GEN_6_def INTEL_GEN_7_def INTEL_GEN_7_5_def
  cmd_wa_gen6_pre_depth_stall_write_def INTEL_CMD_WA_GEN6_PRE_DEPTH_STALL_WRITE_def
  cmd_batch_flush_def



subsection \<open>A barrier for host writes only\<close>

lemma host_write_masks:
  "access_mask_flush_flags f 0 VK_ACCESS_HOST_WRITE_BIT = f"
  by (simp add: access_mask_flush_flags_def access_bits Let_def)

text \<open>
  Claim C6, as amended. A pipeline barrier whose only barrier is a memory barrier from
  \<open>VK_ACCESS_HOST_WRITE_BIT\<close> to no access adds no flush or invalidate bit: the call is
  \<open>cmd_batch_flush\<close> on the flag word of the stage masks alone, which is zero when neither
  stage mask names a stage other than \<open>VK_PIPELINE_STAGE_HOST_BIT\<close>, and the call then
  returns the command buffer as it was. With any other stage the flag word is the CS
  stall, and a packet is written once a draw has been recorded.
\<close>

theorem host_write_barrier_flags:
  assumes "mb_sType b = VK_STRUCTURE_TYPE_MEMORY_BARRIER"
    and "mb_srcAccessMask b = VK_ACCESS_HOST_WRITE_BIT"
    and "mb_dstAccessMask b = 0"
  shows "vkCmdPipelineBarrier m cmd srcStageMask dstStageMask dependencyFlags [b] [] [] =
           cmd_batch_flush cmd
             (if srcStageMask AND NOT VK_PIPELINE_STAGE_HOST_BIT \<noteq> 0 \<or>
                 dstStageMask AND NOT VK_PIPELINE_STAGE_HOST_BIT \<noteq> 0
              then GEN6_PIPE_CONTROL_CS_STALL else 0) \<and>
         (srcStageMask AND NOT VK_PIPELINE_STAGE_HOST_BIT = 0 \<and>
          dstStageMask AND NOT VK_PIPELINE_STAGE_HOST_BIT = 0 \<longrightarrow>
          vkCmdPipelineBarrier m cmd srcStageMask dstStageMask dependencyFlags [b] [] []
            = Inr cmd)"
  using assms
  by (simp add: vkCmdPipelineBarrier_def cmd_memory_barriers_def host_write_masks
      cmd_batch_flush_early Let_def)

theorem host_write_barrier_flags_witness:
  "vkCmdPipelineBarrier example_meta_ds_op (example_cmd_drawn 1)
     VK_PIPELINE_STAGE_HOST_BIT VK_PIPELINE_STAGE_HOST_BIT 0 [example_host_write_barrier] [] []
   = Inr (example_cmd_drawn 1)"
  using host_write_barrier_flags [of example_host_write_barrier example_meta_ds_op
      "example_cmd_drawn 1" VK_PIPELINE_STAGE_HOST_BIT VK_PIPELINE_STAGE_HOST_BIT 0]
  by (simp add: example_host_write_barrier_def cmd_batch_flush_def VK_PIPELINE_STAGE_HOST_BIT_def)


text \<open>
  The claim as stated fails: after one draw, with both stage masks
  \<open>VK_PIPELINE_STAGE_TOP_OF_PIPE_BIT\<close>, the same barrier writes a PIPE_CONTROL with the CS
  stall and the scoreboard stall.
\<close>

theorem host_write_barrier_counterexample:
  "result_batch (vkCmdPipelineBarrier example_meta_ds_op (example_cmd_drawn 1)
     VK_PIPELINE_STAGE_TOP_OF_PIPE_BIT VK_PIPELINE_STAGE_TOP_OF_PIPE_BIT 0
     [example_host_write_barrier] [] []) =
   [pipe_control_item 0
      (GEN6_PIPE_CONTROL_CS_STALL OR GEN6_PIPE_CONTROL_PIXEL_SCOREBOARD_STALL) 0]"
  by (simp add: vkCmdPipelineBarrier_def cmd_memory_barriers_def access_mask_flush_flags_def
      result_batch_def batch_stored_def pipe_control_item_def PIPE_CONTROL_HEADER_def
      example_defs writer_defs pipe_control_defs pipe_control_bits access_bits Let_def)

subsection \<open>Shader cache\<close>

lemma cmd_instruction_write_Inr:
  assumes "cmd_instruction_write cmd sz kern = Inr (offs, cmd1)"
  shows "same_core cmd cmd1"
    "w' \<noteq> INTEL_CMD_WRITER_INSTRUCTION \<Longrightarrow> writers cmd1 w' = writers cmd w'"
  using assms
  by (auto simp: cmd_instruction_write_def and_then_Inr_iff writer_store_def Let_def
      same_core_def split: if_splits
      dest: cmd_writer_reserve_Inr(1) cmd_writer_reserve_other)

lemma find_snoc_None:
  "find P xs = None \<Longrightarrow> find P (xs @ [y]) = (if P y then Some y else None)"
  by (induction xs) (auto split: if_splits)

lemma emit_shader_hit:
  "find (\<lambda>e. fst e = shader_ptr shader) (entries (shader_cache (bind cmd))) = Some e \<Longrightarrow>
     emit_shader alloc cmd shader = Inr (snd e, cmd)"
  by (simp add: emit_shader_def)

lemma emit_shader_miss:
  assumes "find (\<lambda>e. fst e = shader_ptr shader) (entries (shader_cache (bind cmd))) = None"
    and "emit_shader alloc cmd shader = Inr (offs, cmd')"
  shows "\<exists>cmd1. cmd_instruction_write cmd (codeSize shader) (pCode shader) = Inr (offs, cmd1) \<and>
           writers cmd' = writers cmd1 \<and> gen cmd' = gen cmd \<and>
           (length (entries (shader_cache (bind cmd)))
              \<le> cache_count (shader_cache (bind cmd)) \<and>
            (alloc cmd1 \<or> length (entries (shader_cache (bind cmd)))
                           < cache_count (shader_cache (bind cmd))) \<longrightarrow>
            entries (shader_cache (bind cmd')) =
              entries (shader_cache (bind cmd)) @ [(shader_ptr shader, offs)])"
proof -
  from assms obtain cmd1 where
    w: "cmd_instruction_write cmd (codeSize shader) (pCode shader) = Inr (offs, cmd1)"
    and c: "cmd' = cmd1\<lparr>bind := (bind cmd1)\<lparr>shader_cache :=
       (let cache1 = shader_cache (bind cmd1);
            cache2 = (if length (entries cache1) \<ge> cache_count cache1
                      then (if alloc cmd1 then cache1\<lparr>cache_count := cache_count cache1 + 16\<rparr>
                            else cache1)
                      else cache1)
        in (if length (entries cache2) < cache_count cache2
            then cache2\<lparr>entries := entries cache2 @ [(shader_ptr shader, offs)]\<rparr>
            else cache2))\<rparr>\<rparr>"
    by (auto simp: emit_shader_def and_then_Inr_iff Let_def)
  from cmd_instruction_write_Inr(1) [OF w] have b: "bind cmd1 = bind cmd" "gen cmd1 = gen cmd"
    by (simp_all add: same_core_def)
  show ?thesis
    using w b unfolding c by (auto simp: Let_def)
qed

text \<open>
  Claim C8, as amended. The cache is keyed by the shader object, not by its code: when
  \<open>emit_shader\<close> has returned for a shader, the cache held no more entries than its
  capacity, and the new entry could be stored (there was room, or the allocation that
  grows the cache succeeds), a second \<open>emit_shader\<close> for the same shader object returns
  the same offset and leaves the command buffer as it is, so nothing is uploaded again.
\<close>

theorem emit_shader_reuse:
  assumes "emit_shader alloc cmd shader = Inr (offs, cmd1)"
    and "length (entries (shader_cache (bind cmd))) \<le> cache_count (shader_cache (bind cmd))"
    and "(\<forall>c. alloc c) \<or>
         length (entries (shader_cache (bind cmd))) < cache_count (shader_cache (bind cmd))"
  shows "emit_shader alloc' cmd1 shader = Inr (offs, cmd1)"
proof (cases "find (\<lambda>e. fst e = shader_ptr shader) (entries (shader_cache (bind cmd)))")
  case (Some e)
  from emit_shader_hit [OF Some, of alloc] assms(1) have "offs = snd e" "cmd1 = cmd" by simp_all
  with emit_shader_hit [OF Some, of alloc'] show ?thesis by simp
next
  case None
  from emit_shader_miss [OF None assms(1)] assms(2,3) have
    "entries (shader_cache (bind cmd1)) =
       entries (shader_cache (bind cmd)) @ [(shader_ptr shader, offs)]"
    by blast
  with None have
    "find (\<lambda>e. fst e = shader_ptr shader) (entries (shader_cache (bind cmd1)))
       = Some (shader_ptr shader, offs)"
    by (simp add: find_snoc_None)
  from emit_shader_hit [OF this, of alloc'] show ?thesis by simp
qed

lemmas shader_defs =
  emit_shader_twice_def emit_shader_def cmd_instruction_write_def example_alloc_def
  example_pipeline2_def

theorem emit_shader_reuse_witness:
  "length (entries (shader_cache (bind example_cmd)))
     \<le> cache_count (shader_cache (bind example_cmd)) \<and>
   (\<exists>cmd1. emit_shader example_alloc example_cmd (vs example_pipeline) = Inr (0, cmd1) \<and>
      emit_shader example_alloc cmd1 (vs example_pipeline) = Inr (0, cmd1))"
proof -
  have h2: "length (entries (shader_cache (bind example_cmd)))
              \<le> cache_count (shader_cache (bind example_cmd))"
    by (simp add: example_defs)
  have h3: "(\<forall>c. example_alloc c) \<or>
            length (entries (shader_cache (bind example_cmd)))
              < cache_count (shader_cache (bind example_cmd))"
    by (simp add: example_alloc_def)
  have "\<exists>cmd1. emit_shader example_alloc example_cmd (vs example_pipeline) = Inr (0, cmd1)"
    by (simp add: shader_defs example_defs writer_defs Let_def)
  then obtain cmd1 where
    h1: "emit_shader example_alloc example_cmd (vs example_pipeline) = Inr (0, cmd1)" by blast
  from emit_shader_reuse [OF h1 h2 h3, of example_alloc] h1 h2 show ?thesis by blast
qed

text \<open>
  The claim as stated fails for two pipelines whose vertex shaders have the same code at
  different addresses: the code is uploaded twice, at offsets 0 and 64.
\<close>

theorem identical_blob_counterexample:
  "pCode (vs example_pipeline) = pCode (vs example_pipeline2) \<and>
   codeSize (vs example_pipeline) = codeSize (vs example_pipeline2) \<and>
   emit_shader_twice example_alloc example_cmd (vs example_pipeline) (vs example_pipeline2) =
     Inr (0, 64, [(0, Bytes [1, 2, 3, 4]), (64, Bytes [1, 2, 3, 4])])"
  by (simp add: shader_defs example_defs writer_defs Let_def)

subsection \<open>Draws\<close>





































lemma wa_flag_ne0 [simp]: "INTEL_CMD_WA_GEN6_PRE_DEPTH_STALL_WRITE \<noteq> 0"
  by (simp add: INTEL_CMD_WA_GEN6_PRE_DEPTH_STALL_WRITE_def)

















lemma draw_finish_nocache:
  "intel_debug cmd AND INTEL_DEBUG_NOCACHE = 0 \<Longrightarrow> draw_finish cmd = Inr cmd"
  by (simp add: draw_finish_def)



















subsection \<open>Binding tables\<close>

lemma records_from_append:
  "records_from u (xs @ ys) =
     (case records_from u xs of None \<Rightarrow> None | Some u' \<Rightarrow> records_from u' ys)"
  by (induction xs arbitrary: u) simp_all

lemma surface_appended_refl [simp]: "surface_appended cmd cmd []"
  by (simp add: surface_appended_def)

lemma surface_appended_trans:
  assumes "surface_appended a b xs" "surface_appended b c ys"
  shows "surface_appended a c (xs @ ys)"
  using assms
  by (auto simp: surface_appended_def records_from_append intro: same_core_trans)

lemma u_align_ge: "0 < a \<Longrightarrow> v \<le> u_align v a"
proof -
  assume a: "0 < a"
  have "v \<le> v + a - 1 - (v + a - 1) mod a"
  proof -
    have "(v + a - 1) mod a < a" using a by simp
    then show ?thesis by linarith
  qed
  also have "\<dots> = (v + a - 1) div a * a"
    by (simp add: minus_mod_eq_div_mult)
  finally show ?thesis by (simp add: u_align_def)
qed

lemma surface_write_size_dvd: "surface_write_size len mod 4 = 0"
proof -
  have "(4::nat) dvd 2 ^ 32" by simp
  then have "4 dvd (len * 4) mod 2 ^ 32"
    by (simp add: dvd_mod)
  then show ?thesis by (simp add: surface_write_size_def)
qed

lemma payload_size_copied:
  assumes "surface_write_size len div 4 \<le> length dw"
  shows "payload_size (Dwords (copied_dwords len dw)) = surface_write_size len"
proof -
  have "4 * (surface_write_size len div 4) = surface_write_size len"
    using surface_write_size_dvd [of len] by presburger
  with assms show ?thesis
    by (simp add: payload_size_def copied_dwords_def min_def)
qed

lemma cmd_writer_reserve_wsize:
  "cmd_writer_reserve cmd w a sz = Inr (offs, cmd1) \<Longrightarrow>
     wsize (writers cmd w) \<le> wsize (writers cmd1 w) \<and> 0 < a"
  by (auto simp: cmd_writer_reserve_def cmd_writer_grow_def cmd_fail_def Let_def
      split: if_splits)

lemma cmd_surface_write_Inr:
  assumes "cmd_surface_write cmd a len dw = Inr (offs, cmd')"
  shows "\<exists>off. offs = word_of_nat off \<and>
           surface_appended cmd cmd' [(off, Dwords (copied_dwords len dw))]"
proof -
  from assms obtain o1 cmd1 where
    r: "cmd_writer_reserve cmd INTEL_CMD_WRITER_SURFACE a (surface_write_size len)
          = Inr (o1, cmd1)" and
    l: "surface_write_size len div 4 \<le> length dw" and
    o: "offs = word_of_nat (o1 mod 2 ^ 32)" and
    c: "cmd' = writer_store
                 (set_writer cmd1 INTEL_CMD_WRITER_SURFACE
                    ((writers cmd1 INTEL_CMD_WRITER_SURFACE)
                       \<lparr>used := o1 mod 2 ^ 32 + surface_write_size len\<rparr>))
                 INTEL_CMD_WRITER_SURFACE (o1 mod 2 ^ 32) (Dwords (copied_dwords len dw))"
    by (auto simp: cmd_surface_write_def and_then_Inr_iff Let_def split: if_splits)
  note f = cmd_writer_reserve_Inr [OF r]
  from cmd_writer_reserve_wsize [OF r] have
    w: "wsize (writers cmd INTEL_CMD_WRITER_SURFACE) \<le> wsize (writers cmd1 INTEL_CMD_WRITER_SURFACE)"
    and a0: "0 < a" by simp_all
  have core: "same_core cmd cmd'"
    using f(1) unfolding c by (simp add: same_core_def writer_store_def)
  have st: "surface_stored cmd' = surface_stored cmd @ [(o1 mod 2 ^ 32, Dwords (copied_dwords len dw))]"
    unfolding c surface_stored_def using f(5) [of INTEL_CMD_WRITER_SURFACE]
    by (simp add: writer_store_def)
  have sb: "sba_offset (writers cmd' INTEL_CMD_WRITER_SURFACE)
              = sba_offset (writers cmd INTEL_CMD_WRITER_SURFACE)"
    unfolding c using f(7) [of INTEL_CMD_WRITER_SURFACE] by (simp add: writer_store_def)
  have ws: "wsize (writers cmd' INTEL_CMD_WRITER_SURFACE)
              = wsize (writers cmd1 INTEL_CMD_WRITER_SURFACE)"
    unfolding c by (simp add: writer_store_def)
  have us: "used (writers cmd' INTEL_CMD_WRITER_SURFACE)
              = o1 mod 2 ^ 32 + surface_write_size len"
    unfolding c by (simp add: writer_store_def)
  have rec: "records_from (used (writers cmd INTEL_CMD_WRITER_SURFACE))
               [(o1 mod 2 ^ 32, Dwords (copied_dwords len dw))]
             = Some (used (writers cmd' INTEL_CMD_WRITER_SURFACE))"
    if lt: "wsize (writers cmd' INTEL_CMD_WRITER_SURFACE) < 2 ^ 32"
  proof -
    from f(9) lt ws have "o1 < 2 ^ 32" by simp
    then have m: "o1 mod 2 ^ 32 = o1" by simp
    have "used (writers cmd INTEL_CMD_WRITER_SURFACE) \<le> o1"
      unfolding f(8) by (rule u_align_ge [OF a0])
    then show ?thesis
      unfolding us m by (simp add: payload_size_copied [OF l])
  qed
  from core st sb ws w rec o show ?thesis
    unfolding surface_appended_def by auto
qed

lemma cmd_surface_reloc_core:
  assumes "cmd_surface_reloc cmd offs i bo boffs fl = Inr cmd1"
  shows "same_core cmd cmd1" "writers cmd1 = writers cmd"
  using assms
  by (auto simp: cmd_surface_reloc_def cmd_writer_reloc_def same_core_def split: if_splits)

lemma surface_appended_core:
  assumes "surface_appended cmd cmd1 items" "same_core cmd1 cmd2" "writers cmd2 = writers cmd1"
  shows "surface_appended cmd cmd2 items"
  using assms by (auto simp: surface_appended_def surface_stored_def intro: same_core_trans)

lemma surface_write_reloc:
  assumes w: "cmd_surface_write cmd a len dw = Inr (offs, cmd1)" and
    r: "cmd_reserve_reloc cmd1 1 = Inr cmd2" and
    s: "cmd_surface_reloc cmd2 offs 1 bo boffs fl = Inr cmd3"
  shows "\<exists>off. offs = word_of_nat off \<and>
           surface_appended cmd cmd3 [(off, Dwords (copied_dwords len dw))]"
proof -
  from cmd_surface_write_Inr [OF w] obtain off where
    o: "offs = word_of_nat off" and
    a: "surface_appended cmd cmd1 [(off, Dwords (copied_dwords len dw))]" by blast
  have "surface_appended cmd cmd2 [(off, Dwords (copied_dwords len dw))]"
    using surface_appended_core [OF a cmd_reserve_reloc_core [OF r]] .
  from surface_appended_core [OF this cmd_surface_reloc_core [OF s]] o
  show ?thesis by blast
qed

lemma write_null_view_Inr:
  assumes "write_null_view cmd = Inr (offs, cmd')"
  shows "\<exists>off d. offs = word_of_nat off \<and> surface_appended cmd cmd' [(off, Dwords d)] \<and>
           surface_record cmd stage slot d"
proof -
  from cmd_surface_write_Inr [OF assms [unfolded write_null_view_def]]
  show ?thesis unfolding surface_record_def by blast
qed

lemma emit_binding_table_slot_Inr:
  assumes e: "emit_binding_table_slot cmd stage slot = Inr (offs, cmd')"
  shows "\<exists>off d. offs = word_of_nat off \<and> surface_appended cmd cmd' [(off, Dwords d)] \<and>
           surface_record cmd stage slot d"
proof (cases "slot_type slot")
  case INTEL_PIPELINE_RMAP_UNUSED
  with e have "write_null_view cmd = Inr (offs, cmd')"
    by (simp add: emit_binding_table_slot_def)
  from write_null_view_Inr [OF this] show ?thesis .
next
  case INTEL_PIPELINE_RMAP_SAMPLER
  with e show ?thesis by (simp add: emit_binding_table_slot_def)
next
  case INTEL_PIPELINE_RMAP_RT
  with e obtain v where v: "rt_slot_view cmd slot = Inr v" and
    b: "(case v of
              Some view \<Rightarrow>
                and_then (cmd_surface_write cmd GEN6_ALIGNMENT_SURFACE_STATE
                            (unat (att_cmd_len view)) (att_cmd view)) (\<lambda>(offs, cmd1).
                and_then (cmd_reserve_reloc cmd1 1) (\<lambda>cmd2.
                  if length (att_cmd view) < 2 then Inl MemoryFault
                  else
                    and_then (cmd_surface_reloc cmd2 offs 1 (att_bo view) (att_cmd view ! 1)
                                INTEL_RELOC_WRITE) (\<lambda>cmd3. Inr (offs, cmd3))))
            | None \<Rightarrow> write_null_view cmd) = Inr (offs, cmd')"
    by (simp add: emit_binding_table_slot_def and_then_Inr_iff) blast
  show ?thesis
  proof (cases v)
    case None
    with b have "write_null_view cmd = Inr (offs, cmd')" by simp
    from write_null_view_Inr [OF this] show ?thesis .
  next
    case (Some view)
    with b obtain cmd1 cmd2 where
      w: "cmd_surface_write cmd GEN6_ALIGNMENT_SURFACE_STATE
            (unat (att_cmd_len view)) (att_cmd view) = Inr (offs, cmd1)" and
      r: "cmd_reserve_reloc cmd1 1 = Inr cmd2" and
      s: "cmd_surface_reloc cmd2 offs 1 (att_bo view) (att_cmd view ! 1) INTEL_RELOC_WRITE
            = Inr cmd'"
      by (auto simp: and_then_Inr_iff split: if_splits)
    from surface_write_reloc [OF w r s] obtain off where
      "offs = word_of_nat off"
      "surface_appended cmd cmd'
         [(off, Dwords (copied_dwords (unat (att_cmd_len view)) (att_cmd view)))]"
      by blast
    moreover have "surface_record cmd stage slot
                     (copied_dwords (unat (att_cmd_len view)) (att_cmd view))"
      using INTEL_PIPELINE_RMAP_RT v Some by (simp add: surface_record_def)
    ultimately show ?thesis by blast
  qed
next
  case INTEL_PIPELINE_RMAP_SURFACE
  define dd where "dd = desc_region cmd
                      (intel_desc_offset_add (surface_offset slot)
                         (set_offsets (bind cmd) ! unat (slot_index slot))) stage"
  show ?thesis
  proof (cases "desc_mem dd")
    case None
    with e INTEL_PIPELINE_RMAP_SURFACE have "write_null_view cmd = Inr (offs, cmd')"
      by (simp add: emit_binding_table_slot_def Let_def dd_def split: if_splits)
    from write_null_view_Inr [OF this] show ?thesis .
  next
    case (Some bo)
    with e INTEL_PIPELINE_RMAP_SURFACE obtain cmd1 cmd2 boffs fl where
      w: "cmd_surface_write cmd GEN6_ALIGNMENT_SURFACE_STATE
            (unat (desc_cmd_len dd)) (desc_cmd dd) = Inr (offs, cmd1)" and
      r: "cmd_reserve_reloc cmd1 1 = Inr cmd2" and
      s: "cmd_surface_reloc cmd2 offs 1 bo boffs fl = Inr cmd'"
      by (auto simp: emit_binding_table_slot_def Let_def dd_def [symmetric] and_then_Inr_iff
          split: if_splits)
    from surface_write_reloc [OF w r s] obtain off where
      "offs = word_of_nat off"
      "surface_appended cmd cmd'
         [(off, Dwords (copied_dwords (unat (desc_cmd_len dd)) (desc_cmd dd)))]"
      by blast
    moreover have "surface_record cmd stage slot
                     (copied_dwords (unat (desc_cmd_len dd)) (desc_cmd dd))"
      using INTEL_PIPELINE_RMAP_SURFACE Some
      by (simp add: surface_record_def Let_def dd_def [symmetric])
    ultimately show ?thesis by blast
  qed
qed

lemma rt_slot_view_core:
  assumes "same_core cmd cmd1"
  shows "rt_slot_view cmd1 slot = rt_slot_view cmd slot"
proof -
  from assms have b: "bind cmd1 = bind cmd" by (simp add: same_core_def)
  show ?thesis unfolding rt_slot_view_def b by (rule refl)
qed

lemma surface_record_core:
  assumes "same_core cmd cmd1"
  shows "surface_record cmd1 stage slot d = surface_record cmd stage slot d"
proof -
  from assms have b: "bind cmd1 = bind cmd" "null_view_cmd cmd1 = null_view_cmd cmd"
    "desc_region cmd1 = desc_region cmd" by (simp_all add: same_core_def)
  show ?thesis unfolding surface_record_def rt_slot_view_core [OF assms] b by (rule refl)
qed

lemma binding_table_entry_core:
  assumes "same_core cmd cmd1"
  shows "binding_table_entry cmd1 stage sba slot item e
           = binding_table_entry cmd stage sba slot item e"
  unfolding binding_table_entry_def surface_record_core [OF assms] by (rule refl)

lemma binding_table_loop_Inr:
  assumes "binding_table_loop stage sba ss (cmd, bt) = Inr (cmd', bt')"
  shows "\<exists>recs tbl. bt' = bt @ tbl \<and> length recs = length ss \<and> length tbl = length ss \<and>
           surface_appended cmd cmd' recs \<and>
           (\<forall>i<length ss. binding_table_entry cmd stage sba (ss ! i) (recs ! i) (tbl ! i))"
  using assms
proof (induction ss arbitrary: cmd bt)
  case Nil
  then show ?case by simp
next
  case (Cons slot rest)
  from Cons.prems obtain offs cmd1 where
    e: "emit_binding_table_slot cmd stage slot = Inr (offs, cmd1)" and
    l: "binding_table_loop stage sba rest (cmd1, bt @ [offs - sba]) = Inr (cmd', bt')"
    by (auto simp: and_then_Inr_iff)
  from emit_binding_table_slot_Inr [OF e] obtain off d where
    o: "offs = word_of_nat off" and
    a: "surface_appended cmd cmd1 [(off, Dwords d)]" and
    r: "surface_record cmd stage slot d" by blast
  from Cons.IH [OF l] obtain recs tbl where
    b: "bt' = (bt @ [offs - sba]) @ tbl" and
    n: "length recs = length rest" "length tbl = length rest" and
    a1: "surface_appended cmd1 cmd' recs" and
    all: "\<forall>i<length rest. binding_table_entry cmd1 stage sba (rest ! i) (recs ! i) (tbl ! i)"
    by blast
  have core: "same_core cmd cmd1"
    using a by (simp add: surface_appended_def)
  have h: "binding_table_entry cmd stage sba slot (off, Dwords d) (offs - sba)"
    using o r by (simp add: binding_table_entry_def)
  have "\<forall>i<length (slot # rest).
          binding_table_entry cmd stage sba ((slot # rest) ! i)
            (((off, Dwords d) # recs) ! i) (((offs - sba) # tbl) ! i)"
  proof (intro allI impI)
    fix i
    assume "i < length (slot # rest)"
    then show "binding_table_entry cmd stage sba ((slot # rest) ! i)
            (((off, Dwords d) # recs) ! i) (((offs - sba) # tbl) ! i)"
      using h all binding_table_entry_core [OF core]
      by (cases i) simp_all
  qed
  moreover have "surface_appended cmd cmd' ((off, Dwords d) # recs)"
    using surface_appended_trans [OF a a1] by simp
  moreover have "bt' = bt @ (offs - sba) # tbl"
    using b by simp
  moreover have "length ((off, Dwords d) # recs) = length (slot # rest)"
    "length ((offs - sba) # tbl) = length (slot # rest)"
    using n by simp_all
  ultimately show ?case by blast
qed

lemma copied_dwords_all:
  assumes "length dw = n" "n \<le> 256"
  shows "copied_dwords n dw = dw"
proof -
  from assms(2) have "n * 4 < 2 ^ 32" by simp
  then have "surface_write_size n div 4 = n"
    by (simp add: surface_write_size_def)
  with assms(1) show ?thesis by (simp add: copied_dwords_def)
qed

lemma surface_record_unresolved:
  assumes "surface_record cmd stage slot d"
    "slot_type slot = INTEL_PIPELINE_RMAP_UNUSED \<or>
     slot_type slot = INTEL_PIPELINE_RMAP_RT \<and> rt_slot_view cmd slot = Inr None \<or>
     slot_type slot = INTEL_PIPELINE_RMAP_SURFACE \<and>
       desc_mem (desc_region cmd
                   (intel_desc_offset_add (surface_offset slot)
                      (set_offsets (bind cmd) ! unat (slot_index slot))) stage) = None"
  shows "d = copied_dwords (length (null_view_cmd cmd)) (null_view_cmd cmd)"
  using assms by (auto simp: surface_record_def Let_def)

lemma copied_dwords_null_view:
  assumes "length dw < 2 ^ 30"
  shows "copied_dwords (length dw) dw = dw"
proof -
  from assms have "length dw * 4 < 2 ^ 32" by simp
  then have "surface_write_size (length dw) div 4 = length dw"
    by (simp add: surface_write_size_def)
  then show ?thesis by (simp add: copied_dwords_def)
qed

text \<open>
  Claim C2. When \<open>emit_binding_table\<close> returns for a resource map with a non-zero surface count,
  the surface writer holds, after what it held before, one record for each of the
  \<open>surface_count\<close> slots and then the binding table, which has \<open>surface_count\<close> entries.
  Entry \<open>i\<close> plus the surface base offset is the offset of record \<open>i\<close>, and record \<open>i\<close> is
  the surface state of slot \<open>i\<close>, or the null view: it is the null view whenever the slot is
  unused, its render target is absent from the subpass or framebuffer, or its descriptor
  is empty. While the writer is smaller than 4 GiB the records and the table lie one after
  the other from the old end of the writer, so none is overwritten.
\<close>

theorem binding_table_entries_initialized:
  assumes e: "emit_binding_table cmd (Some r) stage = Inr (offs, cmd')" and
    nz: "rmap_surface_count (Some r) \<noteq> 0"
  shows "\<exists>recs table off.
           surface_stored cmd' = surface_stored cmd @ recs @ [(off, Dwords table)] \<and>
           offs + word_of_nat (sba_offset (writers cmd INTEL_CMD_WRITER_SURFACE)) = word_of_nat off \<and>
           length table = unat (rmap_surface_count (Some r)) \<and>
           length recs = length table \<and>
           (\<forall>i<length table.
              binding_table_entry cmd stage
                (word_of_nat (sba_offset (writers cmd INTEL_CMD_WRITER_SURFACE)))
                (slots r ! i) (recs ! i) (table ! i)) \<and>
           (wsize (writers cmd' INTEL_CMD_WRITER_SURFACE) < 2 ^ 32 \<longrightarrow>
              records_from (used (writers cmd INTEL_CMD_WRITER_SURFACE))
                (recs @ [(off, Dwords table)])
              = Some (used (writers cmd' INTEL_CMD_WRITER_SURFACE)))"
proof -
  let ?n = "rmap_surface_count (Some r)"
  let ?sba = "word_of_nat (sba_offset (writers cmd INTEL_CMD_WRITER_SURFACE)) :: u32"
  from e nz obtain cmd1 bt o1 where
    le: "?n \<le> 256" and
    l: "binding_table_loop stage ?sba (take (unat ?n) (slots r)) (cmd, []) = Inr (cmd1, bt)" and
    len: "unat ?n \<le> length (slots r)" and
    w: "cmd_surface_write cmd1 GEN6_ALIGNMENT_BINDING_TABLE_STATE (unat ?n) bt = Inr (o1, cmd')" and
    o: "offs = o1 - ?sba"
    by (auto simp: emit_binding_table_def Let_def and_then_Inr_iff split: if_splits)
  from binding_table_loop_Inr [OF l] len obtain recs where
    n: "length recs = unat ?n" "length bt = unat ?n" and
    a: "surface_appended cmd cmd1 recs" and
    all: "\<forall>i<unat ?n. binding_table_entry cmd stage ?sba (take (unat ?n) (slots r) ! i)
                          (recs ! i) (bt ! i)"
    by auto
  from le have "unat ?n \<le> 256"
    by (simp add: word_le_nat_alt)
  from copied_dwords_all [OF n(2) this] cmd_surface_write_Inr [OF w] obtain off where
    o1: "o1 = word_of_nat off" and
    a1: "surface_appended cmd1 cmd' [(off, Dwords bt)]"
    by auto
  note t = surface_appended_trans [OF a a1]
  have "surface_stored cmd' = surface_stored cmd @ recs @ [(off, Dwords bt)]"
    using t by (simp add: surface_appended_def)
  moreover have "offs + ?sba = word_of_nat off"
    using o o1 by simp
  moreover have "\<forall>i<length bt. binding_table_entry cmd stage ?sba (slots r ! i) (recs ! i) (bt ! i)"
    using all n(2) by simp
  moreover have "wsize (writers cmd' INTEL_CMD_WRITER_SURFACE) < 2 ^ 32 \<longrightarrow>
              records_from (used (writers cmd INTEL_CMD_WRITER_SURFACE))
                (recs @ [(off, Dwords bt)])
              = Some (used (writers cmd' INTEL_CMD_WRITER_SURFACE))"
    using t by (simp add: surface_appended_def)
  ultimately show ?thesis using n
    by (intro exI [of _ recs] exI [of _ bt] exI [of _ off]) simp
qed

lemmas table_defs =
  emit_binding_table_def emit_binding_table_slot_def rt_slot_view_def write_null_view_def
  cmd_surface_write_def surface_write_size_def copied_dwords_def cmd_surface_reloc_def
  intel_desc_offset_add_def rmap_surface_count_def GEN6_ALIGNMENT_SURFACE_STATE_def
  GEN6_ALIGNMENT_BINDING_TABLE_STATE_def example_view_def example_desc_surface_def
  example_rmap_def example_table_cmd_def surface_stored_def

theorem binding_table_entries_initialized_witness:
  "rmap_surface_count (Some example_rmap) = 5 \<and>
   (\<exists>cmd' recs table off.
      emit_binding_table example_table_cmd (Some example_rmap) 1 = Inr (160, cmd') \<and>
      surface_stored cmd' = recs @ [(off, Dwords table)] \<and>
      length table = 5 \<and> length recs = 5 \<and>
      binding_table_entry example_table_cmd 1 0 (slots example_rmap ! 4) (recs ! 4) (table ! 4) \<and>
      records_from 0 (recs @ [(off, Dwords table)])
        = Some (used (writers cmd' INTEL_CMD_WRITER_SURFACE)))"
proof -
  have n: "rmap_surface_count (Some example_rmap) = 5"
    by (simp add: rmap_surface_count_def example_rmap_def)
  have "\<exists>cmd'. emit_binding_table example_table_cmd (Some example_rmap) 1 = Inr (160, cmd') \<and>
          wsize (writers cmd' INTEL_CMD_WRITER_SURFACE) = 4096"
    by (simp add: table_defs example_defs writer_defs pipe_control_defs pipe_control_bits
        Let_def)
  then obtain cmd' where
    e: "emit_binding_table example_table_cmd (Some example_rmap) 1 = Inr (160, cmd')" and
    w: "wsize (writers cmd' INTEL_CMD_WRITER_SURFACE) = 4096" by blast
  have nz: "rmap_surface_count (Some example_rmap) \<noteq> 0"
    using n by simp
  have s: "surface_stored example_table_cmd = []"
    "used (writers example_table_cmd INTEL_CMD_WRITER_SURFACE) = 0"
    "sba_offset (writers example_table_cmd INTEL_CMD_WRITER_SURFACE) = 0"
    by (simp_all add: table_defs example_defs)
  from binding_table_entries_initialized [OF e nz] obtain recs table off where
    "surface_stored cmd' = surface_stored example_table_cmd @ recs @ [(off, Dwords table)]"
    "length table = unat (rmap_surface_count (Some example_rmap))"
    "length recs = length table"
    "\<forall>i<length table.
        binding_table_entry example_table_cmd 1
          (word_of_nat (sba_offset (writers example_table_cmd INTEL_CMD_WRITER_SURFACE)))
          (slots example_rmap ! i) (recs ! i) (table ! i)"
    "wsize (writers cmd' INTEL_CMD_WRITER_SURFACE) < 2 ^ 32 \<longrightarrow>
       records_from (used (writers example_table_cmd INTEL_CMD_WRITER_SURFACE))
         (recs @ [(off, Dwords table)])
       = Some (used (writers cmd' INTEL_CMD_WRITER_SURFACE))"
    by blast
  with n e w s show ?thesis
    by (intro conjI exI [of _ cmd'] exI [of _ recs] exI [of _ table] exI [of _ off]) simp_all
qed

end
